theory Spec2Isabelle
  imports Complex_Main
begin

section \<open>Data model of \<open>ctapipe/tools/hillas_reconstruction.py\<close>\<close>

text \<open>
  The tool \<open>EventReconstructionHillas\<close> is embedded shallowly. Quantities that carry
  astropy units in the source are real numbers here: angles that are compared with each
  other (centroid, width, distance cut) are taken in one common unit, as astropy converts
  them before it compares. Floating-point numbers are idealised as reals.
\<close>

type_synonym tel_id = int

text \<open>The attributes of a \<open>CameraGeometry\<close> that the tool reads.\<close>

record camera_geometry =
  cam_id :: string
  pix_area :: "real list"
  cam_rotation :: real

text \<open>The attributes of a Hillas moments object that the tool reads; \<open>size_h\<close> is \<open>hillas.size\<close>.\<close>

record moments =
  size_h :: real
  cen_x :: real
  cen_y :: real
  width :: real

text \<open>The key of a failed dictionary lookup: a telescope id or a camera type.\<close>

datatype pykey = TelKey tel_id | CamKey string

datatype error =
    KeyError pykey
  | HillasParameterizationError string
  | TypeError

subsection \<open>The threshold tables of \<open>setup\<close> (lines 54-67)\<close>

text \<open>
  \<open>setup\<close> assigns the three dictionaries once, from literals; no other method assigns
  or updates them, so they are constants of the model.
\<close>

definition amp_cut :: "string \<rightharpoonup> int" where
  "amp_cut = [''LSTCam'' \<mapsto> 100, ''NectarCam'' \<mapsto> 100, ''FlashCam'' \<mapsto> 100, ''GCT'' \<mapsto> 50]"

definition dist_cut :: "string \<rightharpoonup> real" where
  "dist_cut = [''LSTCam'' \<mapsto> 2, ''NectarCam'' \<mapsto> 33 / 10, ''FlashCam'' \<mapsto> 3,
               ''GCT'' \<mapsto> 38 / 10]"

text \<open>Each pair is (boundary threshold, picture threshold): index 0 and index 1.\<close>

definition tail_cut :: "string \<rightharpoonup> int \<times> int" where
  "tail_cut = [''LSTCam'' \<mapsto> (8, 16), ''NectarCam'' \<mapsto> (7, 14), ''FlashCam'' \<mapsto> (7, 14),
               ''GCT'' \<mapsto> (3, 6)]"

subsection \<open>The external calls that are observed\<close>

text \<open>
  The calls the tool makes to its collaborators are recorded, in order and with their
  arguments, in the field \<open>calls\<close> of the tool state. The telescope id on the camera
  primitives is the id of the loop iteration that makes the call.
\<close>

record shower =
  alt :: real
  az :: real
  core_x :: real
  core_y :: real

datatype call =
    Call_hessio_event_source string "int list option"
  | Call_guess tel_id "real list" "real list" real
  | Call_tailcuts_clean tel_id camera_geometry "real list" int int
  | Call_hillas_parameters tel_id "real list" "real list" "real list"
  | Call_dilate tel_id camera_geometry "bool list"
  | Call_predict
  | Call_project_to_ground real real
  | Call_normal real real
  | Call_set_event_properties
  | Call_energy_predict shower

text \<open>
  A row of the output table (line 270); \<open>ntels\<close> is \<open>len(image)\<close>, a count (the 16-bit
  width of the column is not modelled).
\<close>

record row =
  row_event_id :: int
  reco_alt :: real
  reco_az :: real
  reco_en :: real
  sim_alt :: real
  sim_az :: real
  sim_en :: real
  ntels :: nat

text \<open>
  The state of the tool object: the geometry cache, the telescope filter, the output
  table, what was printed, the number of samples drawn so far from the global random
  generator, and the record of external calls.
\<close>

record tool =
  geoms :: "tel_id \<rightharpoonup> camera_geometry"
  telescopes :: "int list option"
  output_t :: "row list"
  stdout :: "string list"
  draws :: nat
  calls :: "call list"

section \<open>\<open>preselect\<close> (lines 116-142)\<close>

text \<open>
  The condition of line 137 is a chain of \<open>and\<close>: the amplitude-cut lookup is evaluated
  first, and the distance-cut lookup only when the size test succeeded. A missing key
  raises \<open>KeyError\<close>.
\<close>

definition preselect :: "tool \<Rightarrow> moments option \<Rightarrow> tel_id \<Rightarrow> error + bool" where
  "preselect self hillas tel_id =
     (case hillas of
        None \<Rightarrow> Inr False
      | Some h \<Rightarrow>
          (let dist = sqrt (cen_x h * cen_x h + cen_y h * cen_y h) in
           case geoms self tel_id of
             None \<Rightarrow> Inl (KeyError (TelKey tel_id))
           | Some g \<Rightarrow>
               (case amp_cut (cam_id g) of
                  None \<Rightarrow> Inl (KeyError (CamKey (cam_id g)))
                | Some a \<Rightarrow>
                    if size_h h > of_int a then
                      (case dist_cut (cam_id g) of
                         None \<Rightarrow> Inl (KeyError (CamKey (cam_id g)))
                       | Some d \<Rightarrow>
                           if dist < d \<and> width h > 0 then Inr True else Inr False)
                    else Inr False)))"

section \<open>Events and collaborators\<close>

text \<open>
  What the tool reads of an event for one telescope: \<open>event.dl1.tel[id].image[0]\<close>,
  \<open>event.inst.pixel_pos[id]\<close>, \<open>event.inst.optical_foclen[id]\<close> and
  \<open>event.inst.tel_pos[id]\<close>. The event source fills these containers for every
  telescope, so they are total functions of the telescope id.
\<close>

record telescope_data =
  image0 :: "real list"
  pixel_pos :: "real list \<times> real list"
  optical_foclen :: real
  tel_pos :: "real \<times> real \<times> real"

text \<open>
  \<open>run_array_direction\<close> is (azimuth, altitude), index 0 and index 1;
  \<open>tels_with_data\<close> lists the telescope ids in the order the loop visits them.
\<close>

record event =
  event_id :: int
  run_array_direction :: "real \<times> real"
  tels_with_data :: "tel_id list"
  tel :: "tel_id \<Rightarrow> telescope_data"
  mc_core_x :: real
  mc_core_y :: real
  mc_alt :: real
  mc_az :: real
  mc_energy :: real

text \<open>\<open>HorizonFrame(alt, az)\<close>, the array pointing.\<close>

record horizon_frame =
  hf_alt :: real
  hf_az :: real

text \<open>The per-event dictionaries of \<open>reconstruct_event\<close> (lines 160-172), keyed by telescope id.\<close>

record dicts =
  image_d :: "tel_id \<rightharpoonup> real list"
  pixel_x :: "tel_id \<rightharpoonup> real list"
  pixel_y :: "tel_id \<rightharpoonup> real list"
  pixel_area :: "tel_id \<rightharpoonup> real list"
  tel_type :: "tel_id \<rightharpoonup> string"
  tel_x :: "tel_id \<rightharpoonup> real"
  tel_y :: "tel_id \<rightharpoonup> real"
  hillas :: "tel_id \<rightharpoonup> moments"
  hillas_nom :: "tel_id \<rightharpoonup> moments"
  tel_phi :: "tel_id \<rightharpoonup> real"
  tel_theta :: "tel_id \<rightharpoonup> real"

definition empty_dicts :: dicts where
  "empty_dicts = \<lparr>image_d = Map.empty, pixel_x = Map.empty, pixel_y = Map.empty,
     pixel_area = Map.empty, tel_type = Map.empty, tel_x = Map.empty, tel_y = Map.empty,
     hillas = Map.empty, hillas_nom = Map.empty, tel_phi = Map.empty, tel_theta = Map.empty\<rparr>"

text \<open>What \<open>set_event_properties\<close> receives (line 265).\<close>

type_synonym event_properties =
  "(tel_id \<rightharpoonup> moments) \<times> (tel_id \<rightharpoonup> string) \<times> (tel_id \<rightharpoonup> real) \<times> (tel_id \<rightharpoonup> real)
   \<times> horizon_frame"

text \<open>
  The collaborators the tool imports, as parameters of the model. They are taken to
  return; the only exception a collaborator raises in the model is the
  \<open>HillasParameterizationError\<close> of \<open>hillas_parameters\<close>, whose message is the \<open>Inl\<close> value.
  \<^item> \<open>camera_to_nominal ap fl rot (x, y)\<close> is \<open>CameraFrame(x, y, 0, fl, rot)\<close> transformed to
    the \<open>NominalFrame\<close> whose array direction and pointing direction are both \<open>ap\<close>;
  \<^item> \<open>ground_to_tilted ap (x, y, z)\<close> is \<open>GroundFrame(x, y, z)\<close> transformed to the
    \<open>TiltedGroundFrame\<close> of \<open>ap\<close>;
  \<^item> \<open>dilate g m\<close> is the content of the array \<open>m\<close> after the call \<open>dilate(g, m)\<close>: the tool
    discards the value the call returns (line 228), so only an update in place reaches
    the tool;
  \<^item> \<open>normal k mu sigma\<close> is the value of the \<open>k\<close>-th call to \<open>scipy.random.normal\<close> of the
    run, made with mean \<open>mu\<close> and standard deviation \<open>sigma\<close>.
\<close>

record ext =
  r1_calibrate :: "event \<Rightarrow> event"
  dl0_reduce :: "event \<Rightarrow> event"
  dl1_calibrate :: "event \<Rightarrow> event"
  guess :: "real list \<Rightarrow> real list \<Rightarrow> real \<Rightarrow> camera_geometry"
  camera_to_nominal ::
    "horizon_frame \<Rightarrow> real \<Rightarrow> real \<Rightarrow> real list \<times> real list \<Rightarrow> real list \<times> real list"
  ground_to_tilted :: "horizon_frame \<Rightarrow> real \<times> real \<times> real \<Rightarrow> real \<times> real"
  tailcuts_clean :: "camera_geometry \<Rightarrow> real list \<Rightarrow> int \<Rightarrow> int \<Rightarrow> bool list"
  hillas_parameters :: "real list \<Rightarrow> real list \<Rightarrow> real list \<Rightarrow> string + moments"
  dilate :: "camera_geometry \<Rightarrow> bool list \<Rightarrow> bool list"
  predict ::
    "(tel_id \<rightharpoonup> moments) \<Rightarrow> (tel_id \<Rightarrow> telescope_data) \<Rightarrow> (tel_id \<rightharpoonup> real)
     \<Rightarrow> (tel_id \<rightharpoonup> real) \<Rightarrow> shower"
  project_to_ground :: "horizon_frame \<Rightarrow> real \<times> real \<Rightarrow> real \<times> real"
  normal :: "nat \<Rightarrow> real \<Rightarrow> real \<Rightarrow> real"
  energy_predict :: "event_properties \<Rightarrow> shower \<Rightarrow> real"

section \<open>\<open>setup\<close> (lines 51-88)\<close>

record config =
  infile :: string
  outfile :: string
  cfg_telescopes :: "int list option"

text \<open>
  The trait \<open>telescopes\<close> allows \<open>None\<close>; \<open>len(None)\<close> raises \<open>TypeError\<close> (line 75).
  \<open>setup\<close> (here \<open>setup_tool\<close>) prints the input file name and opens the event source
  with the filter.
\<close>

definition setup_tool :: "config \<Rightarrow> error + tool" where
  "setup_tool cfg =
     (case cfg_telescopes cfg of
        None \<Rightarrow> Inl TypeError
      | Some ts \<Rightarrow>
          (let tels = (if length ts < 2 then None else Some ts) in
           Inr \<lparr>geoms = Map.empty, telescopes = tels, output_t = [],
                stdout = [infile cfg], draws = 0,
                calls = [Call_hessio_event_source (infile cfg) tels]\<rparr>))"

text \<open>
  Modelled from the spec: \<open>hessio_event_source\<close> of \<open>ctapipe.io.hessio\<close> is not among
  the sources. The specification says of it that it produces the events of the file,
  "optionally filtered to a subset of telescope ids": without a filter the events are
  those of the file, and with a filter every event keeps the telescopes whose id is in
  the list. (An event that keeps no telescope stays in the sequence here; the tool
  appends no row for it.)
\<close>

definition hessio_event_source :: "int list option \<Rightarrow> event list \<Rightarrow> event list" where
  "hessio_event_source allowed_tels file_events =
     (case allowed_tels of
        None \<Rightarrow> file_events
      | Some a \<Rightarrow>
          map (\<lambda>e. e\<lparr>tels_with_data := filter (\<lambda>t. t \<in> set a) (tels_with_data e)\<rparr>)
            file_events)"

section \<open>\<open>calibrate_event\<close> (lines 101-114)\<close>

definition calibrate_event :: "ext \<Rightarrow> event \<Rightarrow> event" where
  "calibrate_event X event = dl1_calibrate X (dl0_reduce X (r1_calibrate X event))"

section \<open>\<open>reconstruct_event\<close> (lines 144-272)\<close>

text \<open>
  \<open>pmt_signal * mask\<close> and \<open>x[mask]\<close> on arrays of the same length, as the cleaning
  primitive returns one flag per pixel.
\<close>

definition masked :: "real list \<Rightarrow> bool list \<Rightarrow> real list" where
  "masked signal msk = map (\<lambda>(s, m). if m then s else 0) (zip signal msk)"

definition select :: "'a list \<Rightarrow> bool list \<Rightarrow> 'a list" where
  "select xs msk = map fst (filter snd (zip xs msk))"

text \<open>
  Lines 184-189: the geometry of the telescope is guessed only when its id is not yet a
  key of \<open>geoms\<close>. The result is the geometry that every later \<open>self.geoms[tel_id]\<close>
  of the iteration reads, with the updated tool.
\<close>

definition get_geometry :: "ext \<Rightarrow> event \<Rightarrow> tel_id \<Rightarrow> tool \<Rightarrow> camera_geometry \<times> tool" where
  "get_geometry X event tel_id self =
     (case geoms self tel_id of
        Some g \<Rightarrow> (g, self)
      | None \<Rightarrow>
          (let (pix_x, pix_y) = pixel_pos (tel event tel_id);
               fl = optical_foclen (tel event tel_id);
               g = guess X pix_x pix_y fl
           in (g, self\<lparr>geoms := (geoms self)(tel_id \<mapsto> g),
                       calls := calls self @ [Call_guess tel_id pix_x pix_y fl]\<rparr>)))"

text \<open>
  Lines 211-221, the body of the \<open>try\<close>: the moments over the camera pixel positions,
  then over the nominal ones, both of the signal weighted with the cleaning mask. The
  first failure ends the block.
\<close>

definition parameterise ::
  "ext \<Rightarrow> tel_id \<Rightarrow> real list \<times> real list \<Rightarrow> real list \<times> real list \<Rightarrow> real list \<Rightarrow> tool
   \<Rightarrow> (string + moments \<times> moments) \<times> tool" where
  "parameterise X tel_id cam_pos nom_coord weighted self =
     (let self1 = self\<lparr>calls := calls self @
                    [Call_hillas_parameters tel_id (fst cam_pos) (snd cam_pos) weighted]\<rparr> in
      case hillas_parameters X (fst cam_pos) (snd cam_pos) weighted of
        Inl msg \<Rightarrow> (Inl msg, self1)
      | Inr moments_cam \<Rightarrow>
          (let self2 = self1\<lparr>calls := calls self1 @
                         [Call_hillas_parameters tel_id (fst nom_coord) (snd nom_coord) weighted]\<rparr> in
           case hillas_parameters X (fst nom_coord) (snd nom_coord) weighted of
             Inl msg \<Rightarrow> (Inl msg, self2)
           | Inr moments \<Rightarrow> (Inr (moments_cam, moments), self2)))"

text \<open>
  Lines 226-246, for a telescope that passed \<open>preselect\<close>: two calls of \<open>dilate\<close> on the
  mask, then one entry in each dictionary. The pixel area is divided by the squared
  focal length (a zero focal length gives 0 here, and infinities in numpy). The
  azimuth is stored as it is, and the zenith angle as 90 degrees minus the altitude,
  which the pointing holds in radians.
\<close>

definition store ::
  "ext \<Rightarrow> tel_id \<Rightarrow> camera_geometry \<Rightarrow> horizon_frame \<Rightarrow> real \<Rightarrow> real list \<Rightarrow> real list \<times> real list
   \<Rightarrow> real \<times> real \<Rightarrow> bool list \<Rightarrow> moments \<Rightarrow> moments \<Rightarrow> tool \<times> dicts \<Rightarrow> tool \<times> dicts" where
  "store X tel_id g array_pointing fl pmt_signal nom_coord tilt_tel msk moments_cam moments sd =
     (let (self, d) = sd;
          msk1 = dilate X g msk;
          msk2 = dilate X g msk1;
          self' = self\<lparr>calls := calls self @ [Call_dilate tel_id g msk, Call_dilate tel_id g msk1]\<rparr>;
          d' = d\<lparr>pixel_area := (pixel_area d)(tel_id \<mapsto> map (\<lambda>a. a / (fl * fl)) (pix_area g)),
                 pixel_x := (pixel_x d)(tel_id \<mapsto> select (fst nom_coord) msk2),
                 pixel_y := (pixel_y d)(tel_id \<mapsto> select (snd nom_coord) msk2),
                 tel_x := (tel_x d)(tel_id \<mapsto> fst tilt_tel),
                 tel_y := (tel_y d)(tel_id \<mapsto> snd tilt_tel),
                 tel_type := (tel_type d)(tel_id \<mapsto> cam_id g),
                 image_d := (image_d d)(tel_id \<mapsto> select pmt_signal msk2),
                 hillas := (hillas d)(tel_id \<mapsto> moments_cam),
                 hillas_nom := (hillas_nom d)(tel_id \<mapsto> moments),
                 tel_phi := (tel_phi d)(tel_id \<mapsto> hf_az array_pointing),
                 tel_theta := (tel_theta d)(tel_id \<mapsto> 90 - hf_alt array_pointing * 180 / pi)\<rparr>
      in (self', d'))"

text \<open>
  One iteration of the loop of line 174. The result is the dictionaries after the
  iteration, or the exception that leaves the loop, together with the tool as the
  iteration leaves it. A \<open>HillasParameterizationError\<close> is caught: its message is printed
  and the iteration ends (lines 219-221).
\<close>

definition tel_body ::
  "ext \<Rightarrow> event \<Rightarrow> horizon_frame \<Rightarrow> tel_id \<Rightarrow> tool \<times> dicts \<Rightarrow> (error + dicts) \<times> tool" where
  "tel_body X event array_pointing tel_id sd =
     (let (self, d) = sd;
          pmt_signal = image0 (tel event tel_id);
          cam_pos = pixel_pos (tel event tel_id);
          fl = optical_foclen (tel event tel_id);
          (g, self1) = get_geometry X event tel_id self;
          nom_coord = camera_to_nominal X array_pointing fl (- cam_rotation g) cam_pos;
          tilt_tel = ground_to_tilted X array_pointing (tel_pos (tel event tel_id))
      in case tail_cut (cam_id g) of
           None \<Rightarrow> (Inl (KeyError (CamKey (cam_id g))), self1)
         | Some (boundary, picture) \<Rightarrow>
             (let msk = tailcuts_clean X g pmt_signal picture boundary;
                  self2 = self1\<lparr>calls := calls self1 @
                            [Call_tailcuts_clean tel_id g pmt_signal picture boundary]\<rparr>
              in case parameterise X tel_id cam_pos nom_coord (masked pmt_signal msk) self2 of
                   (Inl msg, self3) \<Rightarrow> (Inr d, self3\<lparr>stdout := stdout self3 @ [msg]\<rparr>)
                 | (Inr (moments_cam, moments), self3) \<Rightarrow>
                     (case preselect self3 (Some moments) tel_id of
                        Inl e \<Rightarrow> (Inl e, self3)
                      | Inr False \<Rightarrow> (Inr d, self3)
                      | Inr True \<Rightarrow>
                          (let (self4, d') = store X tel_id g array_pointing fl pmt_signal
                                               nom_coord tilt_tel msk moments_cam moments (self3, d)
                           in (Inr d', self4)))))"

text \<open>The loop over \<open>event.dl0.tels_with_data\<close>; an exception ends it.\<close>

fun tel_loop ::
  "ext \<Rightarrow> event \<Rightarrow> horizon_frame \<Rightarrow> tel_id list \<Rightarrow> tool \<times> dicts \<Rightarrow> (error + dicts) \<times> tool" where
  "tel_loop X event ap [] sd = (Inr (snd sd), fst sd)"
| "tel_loop X event ap (t # ts) sd =
     (case tel_body X event ap t sd of
        (Inl e, self') \<Rightarrow> (Inl e, self')
      | (Inr d', self') \<Rightarrow> tel_loop X event ap ts (self', d'))"

text \<open>
  Lines 248-272, after the loop: the fit, the projection of its core to the ground
  (whose result is not used), the two assignments of the tilted core, the two assignments
  of a random sample around the simulated core, the energy estimate and the new row.
\<close>

definition fit_and_fill :: "ext \<Rightarrow> event \<Rightarrow> horizon_frame \<Rightarrow> dicts \<Rightarrow> tool \<Rightarrow> tool" where
  "fit_and_fill X event array_pointing d self =
     (let fit_result = predict X (hillas d) (tel event) (tel_phi d) (tel_theta d);
          core_tilt = (core_x fit_result, core_y fit_result);
          core = project_to_ground X array_pointing core_tilt;
          fit1 = fit_result\<lparr>core_x := fst core_tilt\<rparr>;
          fit2 = fit1\<lparr>core_y := snd core_tilt\<rparr>;
          fit3 = fit2\<lparr>core_x := normal X (draws self) (mc_core_x event) 25\<rparr>;
          fit4 = fit3\<lparr>core_y := normal X (draws self + 1) (mc_core_y event) 25\<rparr>;
          props = (hillas_nom d, tel_type d, tel_x d, tel_y d, array_pointing);
          energy = energy_predict X props fit4;
          new_row = \<lparr>row_event_id = event_id event, reco_alt = alt fit4, reco_az = az fit4,
                     reco_en = energy, sim_alt = mc_alt event, sim_az = mc_az event,
                     sim_en = mc_energy event, ntels = card (dom (image_d d))\<rparr>
      in self\<lparr>output_t := output_t self @ [new_row],
              draws := draws self + 2,
              calls := calls self @
                [Call_predict,
                 Call_project_to_ground (fst core_tilt) (snd core_tilt),
                 Call_normal (mc_core_x event) 25,
                 Call_normal (mc_core_y event) 25,
                 Call_set_event_properties,
                 Call_energy_predict fit4]\<rparr>)"

definition reconstruct_event :: "ext \<Rightarrow> event \<Rightarrow> tool \<Rightarrow> (error + unit) \<times> tool" where
  "reconstruct_event X event self =
     (let array_pointing = \<lparr>hf_alt = snd (run_array_direction event),
                            hf_az = fst (run_array_direction event)\<rparr>
      in case tel_loop X event array_pointing (tels_with_data event) (self, empty_dicts) of
           (Inl e, self') \<Rightarrow> (Inl e, self')
         | (Inr d, self') \<Rightarrow>
             if card (dom (image_d d)) > 1
             then (Inr (), fit_and_fill X event array_pointing d self')
             else (Inr (), self'))"

section \<open>\<open>start\<close> (lines 90-94)\<close>

text \<open>The events are those the source yields, in order; an exception ends the run.\<close>

fun start :: "ext \<Rightarrow> event list \<Rightarrow> tool \<Rightarrow> (error + unit) \<times> tool" where
  "start X [] self = (Inr (), self)"
| "start X (event # events) self =
     (case reconstruct_event X (calibrate_event X event) self of
        (Inl e, self') \<Rightarrow> (Inl e, self')
      | (Inr u, self') \<Rightarrow> start X events self')"

section \<open>Notions of the specification\<close>

text \<open>The array pointing of an event, as line 156 builds it.\<close>

definition array_pointing_of :: "event \<Rightarrow> horizon_frame" where
  "array_pointing_of event =
     \<lparr>hf_alt = snd (run_array_direction event), hf_az = fst (run_array_direction event)\<rparr>"

text \<open>The geometry an iteration uses for a telescope: the cached one, or else the guessed one.\<close>

definition geometry_of :: "ext \<Rightarrow> event \<Rightarrow> tool \<Rightarrow> tel_id \<Rightarrow> camera_geometry" where
  "geometry_of X event self tel_id = fst (get_geometry X event tel_id self)"

text \<open>A camera type is registered when the threshold tables have an entry for it.\<close>

definition registered :: "string \<Rightarrow> bool" where
  "registered cam = (cam \<in> dom tail_cut)"

definition nominal_of ::
  "ext \<Rightarrow> event \<Rightarrow> horizon_frame \<Rightarrow> camera_geometry \<Rightarrow> tel_id \<Rightarrow> real list \<times> real list" where
  "nominal_of X event ap g tel_id =
     camera_to_nominal X ap (optical_foclen (tel event tel_id)) (- cam_rotation g)
       (pixel_pos (tel event tel_id))"

text \<open>The cleaning mask of a telescope, and its signal weighted with that mask.\<close>

definition cleaning_mask :: "ext \<Rightarrow> event \<Rightarrow> camera_geometry \<Rightarrow> tel_id \<Rightarrow> bool list" where
  "cleaning_mask X event g tel_id =
     (case tail_cut (cam_id g) of
        None \<Rightarrow> []
      | Some (boundary, picture) \<Rightarrow>
          tailcuts_clean X g (image0 (tel event tel_id)) picture boundary)"

definition weighted_image :: "ext \<Rightarrow> event \<Rightarrow> camera_geometry \<Rightarrow> tel_id \<Rightarrow> real list" where
  "weighted_image X event g tel_id =
     masked (image0 (tel event tel_id)) (cleaning_mask X event g tel_id)"

text \<open>
  Reduction of a telescope image: the moments over the camera positions and over the
  nominal positions, or the message of the first moment computation that fails.
\<close>

definition reduction ::
  "ext \<Rightarrow> event \<Rightarrow> horizon_frame \<Rightarrow> camera_geometry \<Rightarrow> tel_id \<Rightarrow> string + moments \<times> moments" where
  "reduction X event ap g tel_id =
     (case hillas_parameters X (fst (pixel_pos (tel event tel_id)))
             (snd (pixel_pos (tel event tel_id))) (weighted_image X event g tel_id) of
        Inl msg \<Rightarrow> Inl msg
      | Inr moments_cam \<Rightarrow>
          (case hillas_parameters X (fst (nominal_of X event ap g tel_id))
                  (snd (nominal_of X event ap g tel_id)) (weighted_image X event g tel_id) of
             Inl msg \<Rightarrow> Inl msg
           | Inr moments \<Rightarrow> Inr (moments_cam, moments)))"

text \<open>Selection: the three cuts of the camera type on the nominal moments.\<close>

definition selected :: "moments \<Rightarrow> string \<Rightarrow> bool" where
  "selected h cam =
     (case (amp_cut cam, dist_cut cam) of
        (Some a, Some d) \<Rightarrow>
          size_h h > of_int a \<and> sqrt ((cen_x h)\<^sup>2 + (cen_y h)\<^sup>2) < d \<and> width h > 0
      | _ \<Rightarrow> False)"

text \<open>A telescope passes when its reduction succeeds and its nominal moments are selected.\<close>

definition tel_passes ::
  "ext \<Rightarrow> event \<Rightarrow> horizon_frame \<Rightarrow> camera_geometry \<Rightarrow> tel_id \<Rightarrow> bool" where
  "tel_passes X event ap g tel_id =
     (case reduction X event ap g tel_id of
        Inl msg \<Rightarrow> False
      | Inr (moments_cam, moments) \<Rightarrow> selected moments (cam_id g))"

text \<open>
  The calls to the image primitives that the iteration of a telescope makes, in order:
  the cleaning, the moments over the camera positions, the moments over the nominal
  positions when the first did not fail, and the two dilations when the telescope passes.
\<close>

definition iteration_calls ::
  "ext \<Rightarrow> event \<Rightarrow> horizon_frame \<Rightarrow> camera_geometry \<Rightarrow> tel_id \<Rightarrow> call list" where
  "iteration_calls X event ap g tel_id =
     (case tail_cut (cam_id g) of
        None \<Rightarrow> []
      | Some (boundary, picture) \<Rightarrow>
          [Call_tailcuts_clean tel_id g (image0 (tel event tel_id)) picture boundary,
           Call_hillas_parameters tel_id (fst (pixel_pos (tel event tel_id)))
             (snd (pixel_pos (tel event tel_id))) (weighted_image X event g tel_id)] @
          (case hillas_parameters X (fst (pixel_pos (tel event tel_id)))
                  (snd (pixel_pos (tel event tel_id))) (weighted_image X event g tel_id) of
             Inl msg \<Rightarrow> []
           | Inr moments_cam \<Rightarrow>
               [Call_hillas_parameters tel_id (fst (nominal_of X event ap g tel_id))
                  (snd (nominal_of X event ap g tel_id)) (weighted_image X event g tel_id)]) @
          (if tel_passes X event ap g tel_id
           then [Call_dilate tel_id g (cleaning_mask X event g tel_id),
                 Call_dilate tel_id g (dilate X g (cleaning_mask X event g tel_id))]
           else []))"

text \<open>The telescope ids for which \<open>CameraGeometry.guess\<close> was called, in call order.\<close>

fun guessed_tel :: "call \<Rightarrow> tel_id list" where
  "guessed_tel (Call_guess t px py fl) = [t]"
| "guessed_tel c = []"

definition guess_ids :: "call list \<Rightarrow> tel_id list" where
  "guess_ids cs = concat (map guessed_tel cs)"

text \<open>
  The cache and the record of calls agree: \<open>guess\<close> was called once for each cached
  telescope id, and for no other id.
\<close>

definition guessed_once :: "tool \<Rightarrow> bool" where
  "guessed_once self =
     (distinct (guess_ids (calls self)) \<and> set (guess_ids (calls self)) = dom (geoms self))"

text \<open>The telescopes of an event that pass, in the order of the loop.\<close>

definition passing :: "ext \<Rightarrow> event \<Rightarrow> tool \<Rightarrow> tel_id list" where
  "passing X event self =
     filter (\<lambda>t. tel_passes X event (array_pointing_of event) (geometry_of X event self t) t)
       (tels_with_data event)"

text \<open>
  The calls of the telescope loop: geometry guess, cleaning, moments and dilation. The
  fit, the projection, the sampler and the energy estimate are not among them.
\<close>

fun camera_call :: "call \<Rightarrow> bool" where
  "camera_call (Call_guess t px py fl) = True"
| "camera_call (Call_tailcuts_clean t g s p b) = True"
| "camera_call (Call_hillas_parameters t x y w) = True"
| "camera_call (Call_dilate t g m) = True"
| "camera_call c = False"

section \<open>Concrete inputs\<close>

text \<open>
  Stand-ins for the collaborators, used to run the tool on concrete events: the camera
  type is inferred from the focal length, the cleaning keeps the pixels at or above the
  picture threshold, the moments are the total signal and its centroid with a fixed
  width, and the dilation sets every pixel.
\<close>

definition guess0 :: "real list \<Rightarrow> real list \<Rightarrow> real \<Rightarrow> camera_geometry" where
  "guess0 px py fl =
     \<lparr>cam_id = (if fl = 28 then ''LSTCam'' else if fl = 16 then ''NectarCam'' else ''ASTRICam''),
      pix_area = map (\<lambda>x. 1) px, cam_rotation = 0\<rparr>"

definition hillas0 :: "real list \<Rightarrow> real list \<Rightarrow> real list \<Rightarrow> string + moments" where
  "hillas0 x y w =
     (if sum_list w = 0 then Inl ''no signal''
      else Inr \<lparr>size_h = sum_list w,
                cen_x = sum_list (map (\<lambda>(a, b). a * b) (zip x w)) / sum_list w,
                cen_y = sum_list (map (\<lambda>(a, b). a * b) (zip y w)) / sum_list w,
                width = 1 / 20\<rparr>)"

definition X0 :: ext where
  "X0 = \<lparr>r1_calibrate = (\<lambda>e. e), dl0_reduce = (\<lambda>e. e), dl1_calibrate = (\<lambda>e. e),
         guess = guess0,
         camera_to_nominal = (\<lambda>ap fl rot xy. (map (\<lambda>v. v / fl) (fst xy), map (\<lambda>v. v / fl) (snd xy))),
         ground_to_tilted = (\<lambda>ap p. (fst p, fst (snd p))),
         tailcuts_clean = (\<lambda>g img picture boundary. map (\<lambda>s. of_int picture \<le> s) img),
         hillas_parameters = hillas0,
         dilate = (\<lambda>g m. map (\<lambda>b. True) m),
         predict = (\<lambda>h inst phi theta. \<lparr>alt = 1, az = 2, core_x = 10, core_y = 20\<rparr>),
         project_to_ground = (\<lambda>ap p. (fst p + 1, snd p + 1)),
         normal = (\<lambda>k mu sigma. mu + sigma),
         energy_predict = (\<lambda>props sh. core_x sh + core_y sh)\<rparr>"

text \<open>
  Telescope 1 has an LSTCam image that passes, telescope 2 a NectarCam image that passes,
  telescope 3 an LSTCam image without signal above the threshold, and every other
  telescope a camera of a type without thresholds.
\<close>

definition tel0 :: "tel_id \<Rightarrow> telescope_data" where
  "tel0 t =
     (if t = 1 then
        \<lparr>image0 = [200, 5, 0], pixel_pos = ([0, 28, 56], [28, 28, 28]),
         optical_foclen = 28, tel_pos = (0, 0, 0)\<rparr>
      else if t = 2 then
        \<lparr>image0 = [150, 30], pixel_pos = ([0, 0], [16, 16]),
         optical_foclen = 16, tel_pos = (100, 0, 0)\<rparr>
      else if t = 3 then
        \<lparr>image0 = [1, 2, 0], pixel_pos = ([0, 28, 56], [28, 28, 28]),
         optical_foclen = 28, tel_pos = (0, 100, 0)\<rparr>
      else
        \<lparr>image0 = [300, 300], pixel_pos = ([0, 0], [4, 4]),
         optical_foclen = 4, tel_pos = (100, 100, 0)\<rparr>)"

definition event0 :: "tel_id list \<Rightarrow> event" where
  "event0 ts =
     \<lparr>event_id = 7, run_array_direction = (0, 0), tels_with_data = ts, tel = tel0,
      mc_core_x = 100, mc_core_y = 150, mc_alt = 1, mc_az = 2, mc_energy = 3\<rparr>"

definition config0 :: "int list option \<Rightarrow> config" where
  "config0 ts = \<lparr>infile = ''gamma.simtel.gz'', outfile = ''reco.fits'', cfg_telescopes = ts\<rparr>"

text \<open>The tool after \<open>setup\<close> with an empty telescope list.\<close>

definition tool0 :: tool where
  "tool0 = \<lparr>geoms = Map.empty, telescopes = None, output_t = [],
            stdout = [''gamma.simtel.gz''], draws = 0,
            calls = [Call_hessio_event_source ''gamma.simtel.gz'' None]\<rparr>"

definition lst_geometry :: camera_geometry where
  "lst_geometry = \<lparr>cam_id = ''LSTCam'', pix_area = [1, 1, 1], cam_rotation = 0\<rparr>"

text \<open>
  A tool whose cache holds the LSTCam geometry for telescope 1, and the moments of the
  scenario of the specification: size 150, centroid at distance 1, width 0.05.
\<close>

definition tool1 :: tool where
  "tool1 = tool0\<lparr>geoms := [1 \<mapsto> lst_geometry]\<rparr>"

definition moments1 :: moments where
  "moments1 = \<lparr>size_h = 150, cen_x = 0, cen_y = 1, width = 1 / 20\<rparr>"

text \<open>
  An event that gives telescope 1 other pixel positions and another focal length, and the
  tool after a run over two events that both hold telescope 1.
\<close>

definition event_moved :: "tel_id list \<Rightarrow> event" where
  "event_moved ts =
     (event0 ts)\<lparr>event_id := 8,
       tel := (\<lambda>t. (tel0 t)\<lparr>pixel_pos := ([1, 29, 57], [28, 28, 28]), optical_foclen := 16\<rparr>)\<rparr>"

definition run0 :: tool where
  "run0 = snd (start X0 [event0 [1], event_moved [1]] tool0)"

section \<open>Auxiliary facts\<close>

subsection \<open>One iteration of the telescope loop\<close>

lemma tables_same_keys:
  "dom amp_cut = dom tail_cut" "dom dist_cut = dom tail_cut"
  by (auto simp: amp_cut_def dist_cut_def tail_cut_def)

lemma get_geometry_cases:
  "get_geometry X ev t self =
     (case geoms self t of
        Some g \<Rightarrow> (g, self)
      | None \<Rightarrow>
          (guess X (fst (pixel_pos (tel ev t))) (snd (pixel_pos (tel ev t))) (optical_foclen (tel ev t)),
           self\<lparr>geoms := (geoms self)(t \<mapsto> guess X (fst (pixel_pos (tel ev t)))
                                (snd (pixel_pos (tel ev t))) (optical_foclen (tel ev t))),
                 calls := calls self @ [Call_guess t (fst (pixel_pos (tel ev t)))
                                (snd (pixel_pos (tel ev t))) (optical_foclen (tel ev t))]\<rparr>))"
  by (simp add: get_geometry_def Let_def split: option.splits prod.splits)

lemma get_geometry_stored:
  "geoms (snd (get_geometry X ev t self)) t = Some (fst (get_geometry X ev t self))"
  by (simp add: get_geometry_cases split: option.splits)

lemma get_geometry_keeps:
  "geoms self u = Some g \<Longrightarrow> geoms (snd (get_geometry X ev t self)) u = Some g"
  by (auto simp add: get_geometry_cases split: option.splits)

lemma get_geometry_frame:
  "output_t (snd (get_geometry X ev t self)) = output_t self"
  "stdout (snd (get_geometry X ev t self)) = stdout self"
  "draws (snd (get_geometry X ev t self)) = draws self"
  "telescopes (snd (get_geometry X ev t self)) = telescopes self"
  by (simp_all add: get_geometry_cases split: option.splits)

lemma parameterise_frame:
  "geoms (snd (parameterise X t cp nc w self)) = geoms self"
  "output_t (snd (parameterise X t cp nc w self)) = output_t self"
  "stdout (snd (parameterise X t cp nc w self)) = stdout self"
  "draws (snd (parameterise X t cp nc w self)) = draws self"
  "telescopes (snd (parameterise X t cp nc w self)) = telescopes self"
  by (simp_all add: parameterise_def Let_def split: sum.splits)

lemma store_frame:
  "geoms (fst (store X t g ap fl sig nc tt m mc mo (self, d))) = geoms self"
  "output_t (fst (store X t g ap fl sig nc tt m mc mo (self, d))) = output_t self"
  "stdout (fst (store X t g ap fl sig nc tt m mc mo (self, d))) = stdout self"
  "draws (fst (store X t g ap fl sig nc tt m mc mo (self, d))) = draws self"
  "telescopes (fst (store X t g ap fl sig nc tt m mc mo (self, d))) = telescopes self"
  by (simp_all add: store_def Let_def)

lemma tel_body_geoms:
  "geoms (snd (tel_body X ev ap t (self, d))) = geoms (snd (get_geometry X ev t self))"
  by (simp add: tel_body_def Let_def split_beta parameterise_frame store_frame
      split: option.splits sum.splits bool.splits)

lemma tel_body_frame:
  "output_t (snd (tel_body X ev ap t (self, d))) = output_t self"
  "draws (snd (tel_body X ev ap t (self, d))) = draws self"
  "telescopes (snd (tel_body X ev ap t (self, d))) = telescopes self"
  by (simp_all add: tel_body_def Let_def split_beta parameterise_frame store_frame get_geometry_frame
      split: option.splits sum.splits bool.splits)



lemma preselect_registered:
  assumes "geoms self t = Some g" and "registered (cam_id g)"
  shows "preselect self (Some m) t = Inr (selected m (cam_id g))"
proof -
  from assms(2) obtain bp where "tail_cut (cam_id g) = Some bp"
    by (auto simp: registered_def)
  then have "cam_id g \<in> dom amp_cut" "cam_id g \<in> dom dist_cut"
    using tables_same_keys by auto
  then obtain a dc where "amp_cut (cam_id g) = Some a" "dist_cut (cam_id g) = Some dc"
    by auto
  with assms(1) show ?thesis
    by (simp add: preselect_def selected_def power2_eq_square)
qed

lemma parameterise_result:
  "fst (parameterise X t (pixel_pos (tel ev t)) (nominal_of X ev ap g t) (weighted_image X ev g t) self)
     = reduction X ev ap g t"
  by (simp add: parameterise_def reduction_def Let_def split: sum.splits)

lemma tel_body_unregistered:
  assumes "\<not> registered (cam_id (geometry_of X ev self t))"
  shows "tel_body X ev ap t (self, d) =
           (Inl (KeyError (CamKey (cam_id (geometry_of X ev self t)))),
            snd (get_geometry X ev t self))"
proof -
  from assms have "tail_cut (cam_id (fst (get_geometry X ev t self))) = None"
    by (auto simp: registered_def geometry_of_def)
  then show ?thesis
    by (simp add: tel_body_def Let_def split_beta geometry_of_def)
qed

lemma tel_body_result:
  assumes "registered (cam_id (geometry_of X ev self t))"
  shows "fst (tel_body X ev ap t (self, d)) =
           Inr (case reduction X ev ap (geometry_of X ev self t) t of
                  Inl msg \<Rightarrow> d
                | Inr (mc, m) \<Rightarrow>
                    if selected m (cam_id (geometry_of X ev self t))
                    then snd (store X t (geometry_of X ev self t) ap (optical_foclen (tel ev t))
                           (image0 (tel ev t)) (nominal_of X ev ap (geometry_of X ev self t) t)
                           (ground_to_tilted X ap (tel_pos (tel ev t)))
                           (cleaning_mask X ev (geometry_of X ev self t) t) mc m (self, d))
                    else d)"
proof -
  define g where "g = geometry_of X ev self t"
  from assms obtain b p where tc: "tail_cut (cam_id g) = Some (b, p)"
    by (auto simp: registered_def g_def)
  have gg: "fst (get_geometry X ev t self) = g"
    by (simp add: g_def geometry_of_def)
  have cm: "tailcuts_clean X g (image0 (tel ev t)) p b = cleaning_mask X ev g t"
    by (simp add: cleaning_mask_def tc)
  have nom: "camera_to_nominal X ap (optical_foclen (tel ev t)) (- cam_rotation g)
               (pixel_pos (tel ev t)) = nominal_of X ev ap g t"
    by (simp add: nominal_of_def)
  have wi: "masked (image0 (tel ev t)) (cleaning_mask X ev g t) = weighted_image X ev g t"
    by (simp add: weighted_image_def)
  have pre: "\<And>s m. geoms s = geoms (snd (get_geometry X ev t self)) \<Longrightarrow>
                preselect s (Some m) t = Inr (selected m (cam_id g))"
    using assms get_geometry_stored [of X ev t self]
    by (intro preselect_registered) (simp_all add: gg g_def [symmetric])
  show ?thesis
    unfolding g_def [symmetric]
    by (simp add: tel_body_def Let_def split_beta gg tc cm nom wi parameterise_result
        parameterise_frame pre store_def
        split: sum.splits)
qed


lemma parameterise_calls:
  "calls (snd (parameterise X t (pixel_pos (tel ev t)) (nominal_of X ev ap g t)
                 (weighted_image X ev g t) self)) =
     calls self @
       [Call_hillas_parameters t (fst (pixel_pos (tel ev t))) (snd (pixel_pos (tel ev t)))
          (weighted_image X ev g t)] @
       (case hillas_parameters X (fst (pixel_pos (tel ev t))) (snd (pixel_pos (tel ev t)))
               (weighted_image X ev g t) of
          Inl msg \<Rightarrow> []
        | Inr mc \<Rightarrow> [Call_hillas_parameters t (fst (nominal_of X ev ap g t))
                       (snd (nominal_of X ev ap g t)) (weighted_image X ev g t)])"
  by (simp add: parameterise_def Let_def split: sum.splits)

lemma tel_body_calls:
  assumes "registered (cam_id (geometry_of X ev self t))"
  shows "calls (snd (tel_body X ev ap t (self, d))) =
           calls (snd (get_geometry X ev t self)) @
           iteration_calls X ev ap (geometry_of X ev self t) t"
proof -
  define g where "g = geometry_of X ev self t"
  from assms obtain b p where tc: "tail_cut (cam_id g) = Some (b, p)"
    by (auto simp: registered_def g_def)
  have gg: "fst (get_geometry X ev t self) = g"
    by (simp add: g_def geometry_of_def)
  have cm: "tailcuts_clean X g (image0 (tel ev t)) p b = cleaning_mask X ev g t"
    by (simp add: cleaning_mask_def tc)
  have nom: "camera_to_nominal X ap (optical_foclen (tel ev t)) (- cam_rotation g)
               (pixel_pos (tel ev t)) = nominal_of X ev ap g t"
    by (simp add: nominal_of_def)
  have wi: "masked (image0 (tel ev t)) (cleaning_mask X ev g t) = weighted_image X ev g t"
    by (simp add: weighted_image_def)
  have pre: "\<And>s m. geoms s = geoms (snd (get_geometry X ev t self)) \<Longrightarrow>
                preselect s (Some m) t = Inr (selected m (cam_id g))"
    using assms get_geometry_stored [of X ev t self]
    by (intro preselect_registered) (simp_all add: gg g_def [symmetric])
  show ?thesis
    unfolding g_def [symmetric]
    by (simp add: tel_body_def Let_def split_beta gg tc cm nom wi parameterise_result
        parameterise_frame parameterise_calls pre store_def iteration_calls_def tel_passes_def
        reduction_def
        split: sum.splits)
qed

lemma tel_body_stdout:
  assumes "registered (cam_id (geometry_of X ev self t))"
  shows "stdout (snd (tel_body X ev ap t (self, d))) =
           stdout self @
           (case reduction X ev ap (geometry_of X ev self t) t of
              Inl msg \<Rightarrow> [msg] | Inr mm \<Rightarrow> [])"
proof -
  define g where "g = geometry_of X ev self t"
  from assms obtain b p where tc: "tail_cut (cam_id g) = Some (b, p)"
    by (auto simp: registered_def g_def)
  have gg: "fst (get_geometry X ev t self) = g"
    by (simp add: g_def geometry_of_def)
  have cm: "tailcuts_clean X g (image0 (tel ev t)) p b = cleaning_mask X ev g t"
    by (simp add: cleaning_mask_def tc)
  have nom: "camera_to_nominal X ap (optical_foclen (tel ev t)) (- cam_rotation g)
               (pixel_pos (tel ev t)) = nominal_of X ev ap g t"
    by (simp add: nominal_of_def)
  have wi: "masked (image0 (tel ev t)) (cleaning_mask X ev g t) = weighted_image X ev g t"
    by (simp add: weighted_image_def)
  have pre: "\<And>s m. geoms s = geoms (snd (get_geometry X ev t self)) \<Longrightarrow>
                preselect s (Some m) t = Inr (selected m (cam_id g))"
    using assms get_geometry_stored [of X ev t self]
    by (intro preselect_registered) (simp_all add: gg g_def [symmetric])
  show ?thesis
    unfolding g_def [symmetric]
    by (simp add: tel_body_def Let_def split_beta gg tc cm nom wi parameterise_result
        parameterise_frame pre store_def get_geometry_frame
        split: sum.splits bool.splits)
qed

lemma preselect_error:
  "preselect s h t = Inl e \<Longrightarrow> \<exists>k. e = KeyError k"
  by (auto simp: preselect_def Let_def split: option.splits if_splits)

lemma tel_body_error:
  "fst (tel_body X ev ap t sd) = Inl e \<Longrightarrow> \<exists>k. e = KeyError k"
  by (auto simp: tel_body_def Let_def split_beta
      split: option.splits sum.splits bool.splits dest: preselect_error)

subsection \<open>The geometry cache\<close>

lemma geometry_of_geoms:
  "geometry_of X ev s u =
     (case geoms s u of
        Some g \<Rightarrow> g
      | None \<Rightarrow> guess X (fst (pixel_pos (tel ev u))) (snd (pixel_pos (tel ev u)))
                  (optical_foclen (tel ev u)))"
  by (simp add: geometry_of_def get_geometry_cases split: option.splits)

lemma geometry_of_get_geometry:
  "geometry_of X ev (snd (get_geometry X ev t s)) u = geometry_of X ev s u"
  by (simp add: geometry_of_geoms get_geometry_cases split: option.splits)

lemma geometry_of_tel_body:
  "geometry_of X ev (snd (tel_body X ev ap t (s, d))) u = geometry_of X ev s u"
  using geometry_of_get_geometry [of X ev t s u]
  by (simp add: geometry_of_geoms tel_body_geoms)

lemma get_geometry_guess_ids:
  "guess_ids (calls (snd (get_geometry X ev t s))) =
     guess_ids (calls s) @ (if geoms s t = None then [t] else [])"
  by (simp add: get_geometry_cases guess_ids_def split: option.splits)

lemma get_geometry_dom:
  "dom (geoms (snd (get_geometry X ev t s))) = insert t (dom (geoms s))"
  by (auto simp add: get_geometry_cases split: option.splits)

lemma guess_ids_append: "guess_ids (xs @ ys) = guess_ids xs @ guess_ids ys"
  by (simp add: guess_ids_def)

lemma guess_ids_iteration_calls: "guess_ids (iteration_calls X ev ap g t) = []"
  by (auto simp add: iteration_calls_def guess_ids_def split: option.splits sum.splits)

lemma tel_body_guess_ids:
  "guess_ids (calls (snd (tel_body X ev ap t (s, d)))) =
     guess_ids (calls s) @ (if geoms s t = None then [t] else [])"
proof (cases "registered (cam_id (geometry_of X ev s t))")
  case True
  then show ?thesis
    by (simp add: tel_body_calls guess_ids_append guess_ids_iteration_calls
        get_geometry_guess_ids)
next
  case False
  then show ?thesis
    by (simp add: tel_body_unregistered get_geometry_guess_ids)
qed

lemma tel_body_guessed_once:
  assumes "guessed_once s"
  shows "guessed_once (snd (tel_body X ev ap t (s, d)))"
  using assms
  by (auto simp add: guessed_once_def tel_body_guess_ids tel_body_geoms get_geometry_dom)

lemma tel_body_keeps:
  "geoms s u = Some g \<Longrightarrow> geoms (snd (tel_body X ev ap t (s, d))) u = Some g"
  by (simp add: tel_body_geoms get_geometry_keeps)

subsection \<open>The telescope loop\<close>

lemma tel_loop_Cons:
  "tel_loop X ev ap (t # ts) (s, d) =
     (case fst (tel_body X ev ap t (s, d)) of
        Inl e \<Rightarrow> (Inl e, snd (tel_body X ev ap t (s, d)))
      | Inr d' \<Rightarrow> tel_loop X ev ap ts (snd (tel_body X ev ap t (s, d)), d'))"
  by (simp split: prod.splits sum.splits)

lemma tel_loop_keeps:
  "geoms s u = Some g \<Longrightarrow> geoms (snd (tel_loop X ev ap ts (s, d))) u = Some g"
proof (induction ts arbitrary: s d)
  case Nil
  then show ?case by simp
next
  case (Cons t ts)
  from Cons.prems have "geoms (snd (tel_body X ev ap t (s, d))) u = Some g"
    by (rule tel_body_keeps)
  with Cons.IH show ?case
    by (simp only: tel_loop_Cons split: sum.splits) simp
qed

lemma tel_loop_frame:
  "output_t (snd (tel_loop X ev ap ts (s, d))) = output_t s \<and>
   draws (snd (tel_loop X ev ap ts (s, d))) = draws s \<and>
   telescopes (snd (tel_loop X ev ap ts (s, d))) = telescopes s"
proof (induction ts arbitrary: s d)
  case Nil
  then show ?case by simp
next
  case (Cons t ts)
  show ?case
    by (simp only: tel_loop_Cons split: sum.splits) (simp add: Cons.IH tel_body_frame)
qed

lemma tel_loop_guessed_once:
  "guessed_once s \<Longrightarrow> guessed_once (snd (tel_loop X ev ap ts (s, d)))"
proof (induction ts arbitrary: s d)
  case Nil
  then show ?case by simp
next
  case (Cons t ts)
  from Cons.prems have "guessed_once (snd (tel_body X ev ap t (s, d)))"
    by (rule tel_body_guessed_once)
  with Cons.IH show ?case
    by (simp only: tel_loop_Cons split: sum.splits) simp
qed

lemma tel_loop_error:
  "fst (tel_loop X ev ap ts (s, d)) = Inl e \<Longrightarrow> \<exists>k. e = KeyError k"
proof (induction ts arbitrary: s d)
  case Nil
  then show ?case by simp
next
  case (Cons t ts)
  then show ?case
    by (simp only: tel_loop_Cons split: sum.splits) (auto dest: tel_body_error)
qed

lemma tel_body_dom:
  assumes "registered (cam_id (geometry_of X ev s t))"
  shows "\<exists>d'. fst (tel_body X ev ap t (s, d)) = Inr d' \<and>
           dom (image_d d') =
             (if tel_passes X ev ap (geometry_of X ev s t) t
              then insert t (dom (image_d d)) else dom (image_d d))"
  by (simp add: tel_body_result [OF assms] tel_passes_def store_def Let_def
      split: sum.splits prod.splits)

lemma tel_loop_registered:
  assumes "\<forall>t\<in>set ts. registered (cam_id (geometry_of X ev s t))"
  shows "\<exists>d'. fst (tel_loop X ev ap ts (s, d)) = Inr d' \<and>
           dom (image_d d') =
             dom (image_d d) \<union> {t \<in> set ts. tel_passes X ev ap (geometry_of X ev s t) t}"
  using assms
proof (induction ts arbitrary: s d)
  case Nil
  then show ?case by simp
next
  case (Cons t ts)
  let ?s1 = "snd (tel_body X ev ap t (s, d))"
  from Cons.prems have reg: "registered (cam_id (geometry_of X ev s t))"
    by simp
  from tel_body_dom [OF reg, of ap d] obtain d1 where
    d1: "fst (tel_body X ev ap t (s, d)) = Inr d1"
    and dom1: "dom (image_d d1) =
      (if tel_passes X ev ap (geometry_of X ev s t) t
       then insert t (dom (image_d d)) else dom (image_d d))"
    by blast
  have same: "\<And>u. geometry_of X ev ?s1 u = geometry_of X ev s u"
    by (rule geometry_of_tel_body)
  from Cons.prems have "\<forall>u\<in>set ts. registered (cam_id (geometry_of X ev ?s1 u))"
    by (simp add: same)
  from Cons.IH [OF this, of d1] obtain d' where
    d': "fst (tel_loop X ev ap ts (?s1, d1)) = Inr d'"
    and dom': "dom (image_d d') =
      dom (image_d d1) \<union> {u \<in> set ts. tel_passes X ev ap (geometry_of X ev ?s1 u) u}"
    by blast
  have "fst (tel_loop X ev ap (t # ts) (s, d)) = Inr d'"
    by (simp only: tel_loop_Cons d1 sum.case d')
  moreover have "dom (image_d d') =
      dom (image_d d) \<union> {u \<in> set (t # ts). tel_passes X ev ap (geometry_of X ev s u) u}"
    unfolding dom' dom1 same by auto
  ultimately show ?case by blast
qed

lemma registered_iff:
  "\<not> registered c \<longleftrightarrow> c \<notin> dom amp_cut \<or> c \<notin> dom dist_cut \<or> c \<notin> dom tail_cut"
  by (simp add: registered_def tables_same_keys)

lemma camera_call_iteration_calls: "list_all camera_call (iteration_calls X ev ap g t)"
  by (auto simp add: iteration_calls_def split: option.splits sum.splits)

lemma tel_body_calls_ext:
  "\<exists>cs. calls (snd (tel_body X ev ap t (s, d))) = calls s @ cs \<and> list_all camera_call cs"
proof (cases "registered (cam_id (geometry_of X ev s t))")
  case True
  then show ?thesis
    by (auto simp add: tel_body_calls get_geometry_cases camera_call_iteration_calls
        split: option.splits)
next
  case False
  then show ?thesis
    by (auto simp add: tel_body_unregistered get_geometry_cases split: option.splits)
qed

lemma tel_loop_calls_ext:
  "\<exists>cs. calls (snd (tel_loop X ev ap ts (s, d))) = calls s @ cs \<and> list_all camera_call cs"
proof (induction ts arbitrary: s d)
  case Nil
  then show ?case by simp
next
  case (Cons t ts)
  obtain cs1 where c1: "calls (snd (tel_body X ev ap t (s, d))) = calls s @ cs1"
    and l1: "list_all camera_call cs1"
    using tel_body_calls_ext by blast
  show ?case
  proof (cases "fst (tel_body X ev ap t (s, d))")
    case (Inl e)
    then show ?thesis
      using c1 l1 by (simp only: tel_loop_Cons) simp
  next
    case (Inr d1)
    obtain cs2 where
      c2: "calls (snd (tel_loop X ev ap ts (snd (tel_body X ev ap t (s, d)), d1))) =
             calls (snd (tel_body X ev ap t (s, d))) @ cs2"
      and l2: "list_all camera_call cs2"
      using Cons.IH by blast
    have "calls (snd (tel_loop X ev ap (t # ts) (s, d))) = calls s @ (cs1 @ cs2)"
      by (simp only: tel_loop_Cons Inr sum.case c2 c1 append_assoc)
    moreover have "list_all camera_call (cs1 @ cs2)"
      using l1 l2 by simp
    ultimately show ?thesis by blast
  qed
qed

lemma tel_loop_unregistered:
  assumes "\<exists>t\<in>set ts. \<not> registered (cam_id (geometry_of X ev s t))"
  shows "\<exists>t\<in>set ts. \<not> registered (cam_id (geometry_of X ev s t)) \<and>
           fst (tel_loop X ev ap ts (s, d)) =
             Inl (KeyError (CamKey (cam_id (geometry_of X ev s t))))"
  using assms
proof (induction ts arbitrary: s d)
  case Nil
  then show ?case by simp
next
  case (Cons t ts)
  show ?case
  proof (cases "registered (cam_id (geometry_of X ev s t))")
    case False
    then have "fst (tel_loop X ev ap (t # ts) (s, d)) =
                 Inl (KeyError (CamKey (cam_id (geometry_of X ev s t))))"
      by (simp only: tel_loop_Cons) (simp add: tel_body_unregistered)
    with False show ?thesis by auto
  next
    case True
    let ?s1 = "snd (tel_body X ev ap t (s, d))"
    from tel_body_dom [OF True, of ap d] obtain d1 where
      d1: "fst (tel_body X ev ap t (s, d)) = Inr d1"
      by blast
    have same: "\<And>u. geometry_of X ev ?s1 u = geometry_of X ev s u"
      by (rule geometry_of_tel_body)
    from Cons.prems True
    have "\<exists>u\<in>set ts. \<not> registered (cam_id (geometry_of X ev ?s1 u))"
      by (auto simp add: same)
    from Cons.IH [OF this, of d1] obtain u where
      "u \<in> set ts" "\<not> registered (cam_id (geometry_of X ev s u))"
      "fst (tel_loop X ev ap ts (?s1, d1)) =
         Inl (KeyError (CamKey (cam_id (geometry_of X ev s u))))"
      by (auto simp add: same)
    moreover have "tel_loop X ev ap (t # ts) (s, d) = tel_loop X ev ap ts (?s1, d1)"
      by (simp only: tel_loop_Cons d1 sum.case)
    ultimately show ?thesis by auto
  qed
qed

subsection \<open>The event and the run\<close>

lemma reconstruct_event_unfold:
  "reconstruct_event X ev s =
     (case fst (tel_loop X ev (array_pointing_of ev) (tels_with_data ev) (s, empty_dicts)) of
        Inl e \<Rightarrow>
          (Inl e, snd (tel_loop X ev (array_pointing_of ev) (tels_with_data ev) (s, empty_dicts)))
      | Inr d \<Rightarrow>
          (Inr (),
           if 1 < card (dom (image_d d))
           then fit_and_fill X ev (array_pointing_of ev) d
                  (snd (tel_loop X ev (array_pointing_of ev) (tels_with_data ev) (s, empty_dicts)))
           else snd (tel_loop X ev (array_pointing_of ev) (tels_with_data ev) (s, empty_dicts))))"
  by (simp add: reconstruct_event_def array_pointing_of_def Let_def split_beta
      split: sum.splits)

lemma fit_and_fill_frame:
  "geoms (fit_and_fill X ev ap d s) = geoms s"
  "guess_ids (calls (fit_and_fill X ev ap d s)) = guess_ids (calls s)"
  "telescopes (fit_and_fill X ev ap d s) = telescopes s"
  by (simp_all add: fit_and_fill_def Let_def guess_ids_def)

lemma reconstruct_event_keeps:
  "geoms s u = Some g \<Longrightarrow> geoms (snd (reconstruct_event X ev s)) u = Some g"
  by (simp add: reconstruct_event_unfold fit_and_fill_frame tel_loop_keeps split: sum.splits)

lemma reconstruct_event_guessed_once:
  "guessed_once s \<Longrightarrow> guessed_once (snd (reconstruct_event X ev s))"
  using tel_loop_guessed_once [of s X ev "array_pointing_of ev" "tels_with_data ev" empty_dicts]
  by (simp add: reconstruct_event_unfold guessed_once_def fit_and_fill_frame split: sum.splits)

lemma reconstruct_event_error:
  "fst (reconstruct_event X ev s) = Inl e \<Longrightarrow> \<exists>k. e = KeyError k"
  by (auto simp add: reconstruct_event_unfold split: sum.splits dest: tel_loop_error)

lemma start_Cons:
  "start X (ev # evs) s =
     (case fst (reconstruct_event X (calibrate_event X ev) s) of
        Inl e \<Rightarrow> (Inl e, snd (reconstruct_event X (calibrate_event X ev) s))
      | Inr u \<Rightarrow> start X evs (snd (reconstruct_event X (calibrate_event X ev) s)))"
  by (simp split: prod.splits sum.splits)

lemma start_keeps:
  "geoms s u = Some g \<Longrightarrow> geoms (snd (start X evs s)) u = Some g"
proof (induction evs arbitrary: s)
  case Nil
  then show ?case by simp
next
  case (Cons ev evs)
  from Cons.prems
  have "geoms (snd (reconstruct_event X (calibrate_event X ev) s)) u = Some g"
    by (rule reconstruct_event_keeps)
  with Cons.IH show ?case
    by (simp only: start_Cons split: sum.splits) simp
qed

lemma start_guessed_once:
  "guessed_once s \<Longrightarrow> guessed_once (snd (start X evs s))"
proof (induction evs arbitrary: s)
  case Nil
  then show ?case by simp
next
  case (Cons ev evs)
  from Cons.prems
  have "guessed_once (snd (reconstruct_event X (calibrate_event X ev) s))"
    by (rule reconstruct_event_guessed_once)
  with Cons.IH show ?case
    by (simp only: start_Cons split: sum.splits) simp
qed

lemma start_append:
  "fst (start X evs1 s) = Inr () \<Longrightarrow>
     start X (evs1 @ evs2) s = start X evs2 (snd (start X evs1 s))"
proof (induction evs1 arbitrary: s)
  case Nil
  then show ?case by simp
next
  case (Cons ev evs1)
  then show ?case
    by (simp only: start_Cons append_Cons split: sum.splits) auto
qed

lemma setup_tool_guessed_once:
  "setup_tool cfg = Inr s \<Longrightarrow> guessed_once s"
  by (auto simp add: setup_tool_def guessed_once_def guess_ids_def Let_def split: option.splits)

lemma reconstruct_event_frame_error:
  "fst (reconstruct_event X ev s) = Inl e \<Longrightarrow>
     output_t (snd (reconstruct_event X ev s)) = output_t s"
  by (auto simp add: reconstruct_event_unfold tel_loop_frame split: sum.splits)

lemma reconstruct_event_registered:
  assumes "\<forall>t\<in>set (tels_with_data ev). registered (cam_id (geometry_of X ev s t))"
  shows "\<exists>d sl cs.
           tel_loop X ev (array_pointing_of ev) (tels_with_data ev) (s, empty_dicts) = (Inr d, sl) \<and>
           dom (image_d d) = set (passing X ev s) \<and>
           calls sl = calls s @ cs \<and> list_all camera_call cs \<and>
           output_t sl = output_t s \<and> draws sl = draws s \<and>
           reconstruct_event X ev s =
             (Inr (), if 1 < card (set (passing X ev s))
                      then fit_and_fill X ev (array_pointing_of ev) d sl else sl)"
proof -
  let ?L = "tel_loop X ev (array_pointing_of ev) (tels_with_data ev) (s, empty_dicts)"
  from tel_loop_registered [OF assms, of "array_pointing_of ev" empty_dicts]
  obtain d where d: "fst ?L = Inr d"
    and dm: "dom (image_d d) = set (passing X ev s)"
    by (auto simp add: passing_def empty_dicts_def)
  obtain cs where cs: "calls (snd ?L) = calls s @ cs" and l: "list_all camera_call cs"
    using tel_loop_calls_ext by blast
  have "?L = (Inr d, snd ?L)"
    using d by (simp add: prod_eq_iff)
  moreover have "reconstruct_event X ev s =
      (Inr (), if 1 < card (set (passing X ev s))
               then fit_and_fill X ev (array_pointing_of ev) d (snd ?L) else snd ?L)"
    by (simp add: reconstruct_event_unfold d dm)
  ultimately show ?thesis
    using dm cs l tel_loop_frame [of X ev "array_pointing_of ev" "tels_with_data ev" s empty_dicts]
    by blast
qed

lemma reconstruct_event_unregistered:
  assumes "\<exists>t\<in>set (tels_with_data ev). \<not> registered (cam_id (geometry_of X ev s t))"
  shows "\<exists>u\<in>set (tels_with_data ev).
           \<not> registered (cam_id (geometry_of X ev s u)) \<and>
           fst (reconstruct_event X ev s) = Inl (KeyError (CamKey (cam_id (geometry_of X ev s u))))"
proof -
  from tel_loop_unregistered [OF assms, of "array_pointing_of ev" empty_dicts]
  obtain u where "u \<in> set (tels_with_data ev)"
    "\<not> registered (cam_id (geometry_of X ev s u))"
    "fst (tel_loop X ev (array_pointing_of ev) (tels_with_data ev) (s, empty_dicts)) =
       Inl (KeyError (CamKey (cam_id (geometry_of X ev s u))))"
    by blast
  then show ?thesis
    by (auto simp add: reconstruct_event_unfold)
qed

lemma reconstruct_event_passing_calls:
  assumes "\<forall>t\<in>set (tels_with_data ev). registered (cam_id (geometry_of X ev self t))"
    and "1 < card (set (passing X ev self))"
  shows "\<exists>cs (d::dicts) r.
           list_all camera_call cs \<and>
           calls (snd (reconstruct_event X ev self)) =
             calls self @ cs @
             [Call_predict,
              Call_project_to_ground
                (core_x (predict X (hillas d) (tel ev) (tel_phi d) (tel_theta d)))
                (core_y (predict X (hillas d) (tel ev) (tel_phi d) (tel_theta d))),
              Call_normal (mc_core_x ev) 25, Call_normal (mc_core_y ev) 25,
              Call_set_event_properties,
              Call_energy_predict
                ((predict X (hillas d) (tel ev) (tel_phi d) (tel_theta d))
                   \<lparr>core_x := normal X (draws self) (mc_core_x ev) 25,
                    core_y := normal X (draws self + 1) (mc_core_y ev) 25\<rparr>)] \<and>
           output_t (snd (reconstruct_event X ev self)) = output_t self @ [r] \<and>
           reco_en r =
             energy_predict X
               (hillas_nom d, tel_type d, tel_x d, tel_y d, array_pointing_of ev)
               ((predict X (hillas d) (tel ev) (tel_phi d) (tel_theta d))
                  \<lparr>core_x := normal X (draws self) (mc_core_x ev) 25,
                   core_y := normal X (draws self + 1) (mc_core_y ev) 25\<rparr>)"
proof -
  from reconstruct_event_registered [OF assms(1)] obtain d sl cs where
    cs: "calls sl = calls self @ cs" and l: "list_all camera_call cs"
    and out: "output_t sl = output_t self" and dr: "draws sl = draws self"
    and re: "reconstruct_event X ev self =
       (Inr (), if 1 < card (set (passing X ev self))
                then fit_and_fill X ev (array_pointing_of ev) d sl else sl)"
    by blast
  let ?pre = "predict X (hillas d) (tel ev) (tel_phi d) (tel_theta d)"
  let ?fit = "?pre\<lparr>core_x := normal X (draws self) (mc_core_x ev) 25,
                     core_y := normal X (draws self + 1) (mc_core_y ev) 25\<rparr>"
  let ?r = "\<lparr>row_event_id = event_id ev, reco_alt = alt ?fit, reco_az = az ?fit,
             reco_en = energy_predict X
               (hillas_nom d, tel_type d, tel_x d, tel_y d, array_pointing_of ev) ?fit,
             sim_alt = mc_alt ev, sim_az = mc_az ev, sim_en = mc_energy ev,
             ntels = card (dom (image_d d))\<rparr>"
  have s: "snd (reconstruct_event X ev self) = fit_and_fill X ev (array_pointing_of ev) d sl"
    using assms(2) by (simp add: re)
  have A: "calls (snd (reconstruct_event X ev self)) =
             calls self @ cs @
             [Call_predict, Call_project_to_ground (core_x ?pre) (core_y ?pre),
              Call_normal (mc_core_x ev) 25, Call_normal (mc_core_y ev) 25,
              Call_set_event_properties, Call_energy_predict ?fit]"
    by (simp add: s fit_and_fill_def Let_def cs dr)
  have B: "output_t (snd (reconstruct_event X ev self)) = output_t self @ [?r]"
    by (simp add: s fit_and_fill_def Let_def out dr)
  have C: "reco_en ?r = energy_predict X
             (hillas_nom d, tel_type d, tel_x d, tel_y d, array_pointing_of ev) ?fit"
    by simp
  show ?thesis
    by (intro exI conjI) (rule l, rule A, rule B, rule C)
qed

subsection \<open>Unfolding on the concrete inputs\<close>

lemmas run_simps = X0_def guess0_def hillas0_def tel0_def event0_def tool0_def
  get_geometry_def tel_body_def parameterise_def store_def preselect_def masked_def select_def
  tail_cut_def amp_cut_def dist_cut_def Let_def reconstruct_event_def fit_and_fill_def
  empty_dicts_def calibrate_event_def

lemmas spec_simps = registered_def geometry_of_def passing_def tel_passes_def reduction_def
  selected_def weighted_image_def cleaning_mask_def nominal_of_def array_pointing_of_def

section \<open>The claims\<close>

subsection \<open>Selection\<close>

text \<open>
  Claim C2. The selector returns \<open>False\<close> when the moments are absent. For moments of a
  telescope whose camera type has an amplitude cut \<open>a\<close> and a distance cut \<open>d\<close>, it
  returns \<open>True\<close> exactly when the size exceeds \<open>a\<close>, the radial distance of the centroid,
  \<open>sqrt (cen_x\<^sup>2 + cen_y\<^sup>2)\<close>, is below \<open>d\<close>, and the width is positive; an image of
  width 0 is rejected whatever its size and distance.
\<close>

theorem preselect_rule:
  "preselect self None tel_id = Inr False \<and>
   (geoms self tel_id = Some g \<and> amp_cut (cam_id g) = Some a \<and> dist_cut (cam_id g) = Some d \<longrightarrow>
      preselect self (Some h) tel_id =
        Inr (size_h h > of_int a \<and> sqrt ((cen_x h)\<^sup>2 + (cen_y h)\<^sup>2) < d \<and> width h > 0) \<and>
      (width h = 0 \<longrightarrow> preselect self (Some h) tel_id = Inr False))"
  by (simp add: preselect_def power2_eq_square)

text \<open>
  The scenario of the specification: an LSTCam image of size 150 at distance 1 with
  width 0.05 is accepted, and rejected once its width is 0.
\<close>

theorem preselect_rule_witness:
  "geoms tool1 1 = Some lst_geometry \<and> amp_cut (cam_id lst_geometry) = Some 100 \<and>
   dist_cut (cam_id lst_geometry) = Some 2 \<and>
   preselect tool1 None 1 = Inr False \<and>
   preselect tool1 (Some moments1) 1 = Inr True \<and>
   preselect tool1 (Some (moments1\<lparr>width := 0\<rparr>)) 1 = Inr False"
proof -
  have h: "geoms tool1 1 = Some lst_geometry \<and> amp_cut (cam_id lst_geometry) = Some 100 \<and>
           dist_cut (cam_id lst_geometry) = Some 2"
    by (simp add: tool1_def lst_geometry_def amp_cut_def dist_cut_def)
  show ?thesis
    using h preselect_rule [of tool1 1 lst_geometry 100 2 moments1]
      preselect_rule [of tool1 1 lst_geometry 100 2 "moments1\<lparr>width := 0\<rparr>"]
    by (simp add: moments1_def)
qed

text \<open>
  Claim C9. Selection is monotone in the image size: for a camera type with amplitude
  cut \<open>a\<close> and distance cut \<open>d\<close>, and moments whose centroid distance is below \<open>d\<close> and
  whose width is positive, every size up to \<open>a\<close> is rejected and every size above \<open>a\<close>
  is accepted, so that raising the size past the cut turns rejection into acceptance.
\<close>

theorem preselect_monotone_in_size:
  assumes "geoms self tel_id = Some g"
    and "amp_cut (cam_id g) = Some a"
    and "dist_cut (cam_id g) = Some d"
    and "sqrt ((cen_x h)\<^sup>2 + (cen_y h)\<^sup>2) < d"
    and "width h > 0"
  shows "(s \<le> of_int a \<longrightarrow> preselect self (Some (h\<lparr>size_h := s\<rparr>)) tel_id = Inr False) \<and>
         (s > of_int a \<longrightarrow> preselect self (Some (h\<lparr>size_h := s\<rparr>)) tel_id = Inr True) \<and>
         (s \<le> of_int a \<and> of_int a < s' \<longrightarrow>
            preselect self (Some (h\<lparr>size_h := s\<rparr>)) tel_id = Inr False \<and>
            preselect self (Some (h\<lparr>size_h := s'\<rparr>)) tel_id = Inr True)"
  using assms by (simp add: preselect_def power2_eq_square)

text \<open>At the LSTCam cut of 100: size 100 is rejected, size 101 is accepted.\<close>

theorem preselect_monotone_in_size_witness:
  "geoms tool1 1 = Some lst_geometry \<and> amp_cut (cam_id lst_geometry) = Some 100 \<and>
   dist_cut (cam_id lst_geometry) = Some 2 \<and>
   sqrt ((cen_x moments1)\<^sup>2 + (cen_y moments1)\<^sup>2) < 2 \<and> width moments1 > 0 \<and>
   preselect tool1 (Some (moments1\<lparr>size_h := 100\<rparr>)) 1 = Inr False \<and>
   preselect tool1 (Some (moments1\<lparr>size_h := 101\<rparr>)) 1 = Inr True"
proof -
  have h1: "geoms tool1 1 = Some lst_geometry"
    by (simp add: tool1_def)
  have h2: "amp_cut (cam_id lst_geometry) = Some 100"
    by (simp add: lst_geometry_def amp_cut_def)
  have h3: "dist_cut (cam_id lst_geometry) = Some 2"
    by (simp add: lst_geometry_def dist_cut_def)
  have h4: "sqrt ((cen_x moments1)\<^sup>2 + (cen_y moments1)\<^sup>2) < 2"
    by (simp add: moments1_def)
  have h5: "width moments1 > 0"
    by (simp add: moments1_def)
  show ?thesis
    using h1 h2 h3 h4 h5 preselect_monotone_in_size [OF h1 h2 h3 h4 h5, of 100 101]
    by simp
qed

subsection \<open>The multiplicity gate\<close>

text \<open>
  Claim C1. An event all of whose telescopes have a registered camera type is processed
  without an exception. Whenever an event is processed without an exception: if strictly
  more than one telescope passes reduction and selection, the fit and the energy estimate
  are called once each, after the calls of the telescope loop, and exactly one row is
  appended, whose telescope count is the number of passing telescopes; otherwise (no or
  one passing telescope) no row is appended and neither the fit nor the energy estimate
  is called.
\<close>

theorem multiplicity_gate:
  "((\<forall>t\<in>set (tels_with_data ev). registered (cam_id (geometry_of X ev self t))) \<longrightarrow>
      fst (reconstruct_event X ev self) = Inr ()) \<and>
   (fst (reconstruct_event X ev self) = Inr () \<longrightarrow>
      (\<exists>cs. list_all camera_call cs \<and>
         (if 1 < card (set (passing X ev self))
          then \<exists>r fit x y.
                 output_t (snd (reconstruct_event X ev self)) = output_t self @ [r] \<and>
                 ntels r = card (set (passing X ev self)) \<and>
                 calls (snd (reconstruct_event X ev self)) =
                   calls self @ cs @
                   [Call_predict, Call_project_to_ground x y,
                    Call_normal (mc_core_x ev) 25, Call_normal (mc_core_y ev) 25,
                    Call_set_event_properties, Call_energy_predict fit]
          else output_t (snd (reconstruct_event X ev self)) = output_t self \<and>
               calls (snd (reconstruct_event X ev self)) = calls self @ cs)))"
proof (cases "\<forall>t\<in>set (tels_with_data ev). registered (cam_id (geometry_of X ev self t))")
  case False
  then have "\<exists>t\<in>set (tels_with_data ev). \<not> registered (cam_id (geometry_of X ev self t))"
    by blast
  from reconstruct_event_unregistered [OF this] obtain k where
    "fst (reconstruct_event X ev self) = Inl (KeyError k)"
    by blast
  with False show ?thesis
    by simp
next
  case True
  from reconstruct_event_registered [OF True] obtain d sl cs where
    dm: "dom (image_d d) = set (passing X ev self)"
    and cs: "calls sl = calls self @ cs" and l: "list_all camera_call cs"
    and out: "output_t sl = output_t self"
    and re: "reconstruct_event X ev self =
       (Inr (), if 1 < card (set (passing X ev self))
                then fit_and_fill X ev (array_pointing_of ev) d sl else sl)"
    by blast
  show ?thesis
  proof (cases "1 < card (set (passing X ev self))")
    case True
    then show ?thesis
      using l by (auto simp add: re fit_and_fill_def Let_def out cs dm)
  next
    case False
    then show ?thesis
      using l by (auto simp add: re out cs)
  qed
qed

text \<open>
  Telescopes 1 and 2 pass: one row with telescope count 2. Telescope 1 alone, or the
  signal-free telescope 3 alone: no row.
\<close>

theorem multiplicity_gate_witness:
  "registered (cam_id (geometry_of X0 (event0 [1, 2]) tool0 1)) \<and>
   registered (cam_id (geometry_of X0 (event0 [1, 2]) tool0 2)) \<and>
   passing X0 (event0 [1, 2]) tool0 = [1, 2] \<and>
   fst (reconstruct_event X0 (event0 [1, 2]) tool0) = Inr () \<and>
   output_t (snd (reconstruct_event X0 (event0 [1, 2]) tool0)) =
     [\<lparr>row_event_id = 7, reco_alt = 1, reco_az = 2, reco_en = 300,
       sim_alt = 1, sim_az = 2, sim_en = 3, ntels = 2\<rparr>] \<and>
   passing X0 (event0 [1]) tool0 = [1] \<and>
   output_t (snd (reconstruct_event X0 (event0 [1]) tool0)) = [] \<and>
   passing X0 (event0 [3]) tool0 = [] \<and>
   output_t (snd (reconstruct_event X0 (event0 [3]) tool0)) = []"
proof -
  have r1: "registered (cam_id (geometry_of X0 (event0 [1, 2]) tool0 1))"
    by (simp add: run_simps spec_simps)
  have r2: "registered (cam_id (geometry_of X0 (event0 [1, 2]) tool0 2))"
    by (simp add: run_simps spec_simps)
  have h: "\<forall>t\<in>set (tels_with_data (event0 [1, 2])).
             registered (cam_id (geometry_of X0 (event0 [1, 2]) tool0 t))"
    using r1 r2 by (simp add: event0_def)
  have p12: "passing X0 (event0 [1, 2]) tool0 = [1, 2]"
    by (simp add: run_simps spec_simps)
  have p1: "passing X0 (event0 [1]) tool0 = [1]"
    by (simp add: run_simps spec_simps)
  have p3: "passing X0 (event0 [3]) tool0 = []"
    by (simp add: run_simps spec_simps)
  have o12: "output_t (snd (reconstruct_event X0 (event0 [1, 2]) tool0)) =
     [\<lparr>row_event_id = 7, reco_alt = 1, reco_az = 2, reco_en = 300,
       sim_alt = 1, sim_az = 2, sim_en = 3, ntels = 2\<rparr>]"
    by (simp add: run_simps)
  have o1: "output_t (snd (reconstruct_event X0 (event0 [1]) tool0)) = []"
    by (simp add: run_simps)
  have o3: "output_t (snd (reconstruct_event X0 (event0 [3]) tool0)) = []"
    by (simp add: run_simps)
  from multiplicity_gate [of "event0 [1, 2]" X0 tool0] h
  have "fst (reconstruct_event X0 (event0 [1, 2]) tool0) = Inr ()"
    by blast
  with r1 r2 p12 p1 p3 o12 o1 o3 show ?thesis
    by blast
qed

subsection \<open>The core position after the fit\<close>

text \<open>
  Claim C4. For an event that passes the multiplicity gate, the calls after the telescope
  loop are the fit, the projection, two calls of the sampler with the simulated core
  coordinates as means and standard deviation 25, and the energy estimate. The shower
  the energy estimator receives is the fit result with its core position replaced by
  the two samples, and the energy of the new row is the estimate for that shower.
\<close>

theorem core_overwritten_by_sample:
  assumes "\<forall>t\<in>set (tels_with_data ev). registered (cam_id (geometry_of X ev self t))"
    and "1 < card (set (passing X ev self))"
  shows "\<exists>cs fit0 fit props r x y.
           list_all camera_call cs \<and>
           calls (snd (reconstruct_event X ev self)) =
             calls self @ cs @
             [Call_predict, Call_project_to_ground x y,
              Call_normal (mc_core_x ev) 25, Call_normal (mc_core_y ev) 25,
              Call_set_event_properties, Call_energy_predict fit] \<and>
           fit = fit0\<lparr>core_x := normal X (draws self) (mc_core_x ev) 25,
                      core_y := normal X (draws self + 1) (mc_core_y ev) 25\<rparr> \<and>
           output_t (snd (reconstruct_event X ev self)) = output_t self @ [r] \<and>
           reco_en r = energy_predict X props fit"
  using reconstruct_event_passing_calls [OF assms] by blast


text \<open>
  With telescopes 1 and 2 and the simulated core at (100, 150), the estimator receives
  the core (125, 175) of the stand-in sampler, not the fitted core (10, 20).
\<close>

theorem core_overwritten_by_sample_witness:
  "registered (cam_id (geometry_of X0 (event0 [1, 2]) tool0 1)) \<and>
   registered (cam_id (geometry_of X0 (event0 [1, 2]) tool0 2)) \<and>
   1 < card (set (passing X0 (event0 [1, 2]) tool0)) \<and>
   (\<exists>cs x y. calls (snd (reconstruct_event X0 (event0 [1, 2]) tool0)) =
      calls tool0 @ cs @
      [Call_predict, Call_project_to_ground x y, Call_normal 100 25, Call_normal 150 25,
       Call_set_event_properties,
       Call_energy_predict \<lparr>alt = 1, az = 2, core_x = 125, core_y = 175\<rparr>]) \<and>
   last (calls (snd (reconstruct_event X0 (event0 [1, 2]) tool0))) =
     Call_energy_predict \<lparr>alt = 1, az = 2, core_x = 125, core_y = 175\<rparr>"
proof -
  have r1: "registered (cam_id (geometry_of X0 (event0 [1, 2]) tool0 1))"
    by (simp add: run_simps spec_simps)
  have r2: "registered (cam_id (geometry_of X0 (event0 [1, 2]) tool0 2))"
    by (simp add: run_simps spec_simps)
  have h: "\<forall>t\<in>set (tels_with_data (event0 [1, 2])).
             registered (cam_id (geometry_of X0 (event0 [1, 2]) tool0 t))"
    using r1 r2 by (simp add: event0_def)
  have n: "1 < card (set (passing X0 (event0 [1, 2]) tool0))"
    by (simp add: run_simps spec_simps)
  from core_overwritten_by_sample [OF h n] obtain cs fit0 fit x y where
    c: "calls (snd (reconstruct_event X0 (event0 [1, 2]) tool0)) =
          calls tool0 @ cs @
          [Call_predict, Call_project_to_ground x y,
           Call_normal (mc_core_x (event0 [1, 2])) 25, Call_normal (mc_core_y (event0 [1, 2])) 25,
           Call_set_event_properties, Call_energy_predict fit]"
    and f: "fit = fit0\<lparr>core_x := normal X0 (draws tool0) (mc_core_x (event0 [1, 2])) 25,
                        core_y := normal X0 (draws tool0 + 1) (mc_core_y (event0 [1, 2])) 25\<rparr>"
    by blast
  have l: "last (calls (snd (reconstruct_event X0 (event0 [1, 2]) tool0))) =
             Call_energy_predict \<lparr>alt = 1, az = 2, core_x = 125, core_y = 175\<rparr>"
    by (simp add: run_simps)
  from c l have "fit = \<lparr>alt = 1, az = 2, core_x = 125, core_y = 175\<rparr>"
    by simp
  with c have "\<exists>cs x y. calls (snd (reconstruct_event X0 (event0 [1, 2]) tool0)) =
      calls tool0 @ cs @
      [Call_predict, Call_project_to_ground x y, Call_normal 100 25, Call_normal 150 25,
       Call_set_event_properties,
       Call_energy_predict \<lparr>alt = 1, az = 2, core_x = 125, core_y = 175\<rparr>]"
    by (auto simp add: event0_def)
  with r1 r2 n l show ?thesis
    by blast
qed

subsection \<open>The projection of the core to the ground\<close>

text \<open>
  Claim C5. The claim says that, for an event that passes the multiplicity gate, the
  fitted core position is projected once from the tilted frame to the ground and that
  the fit result reports these ground-frame coordinates. The code computes the
  projection (line 256, announced by the comment of line 253) but never reads it: lines
  258-259 assign the tilted coordinates again, and lines 260-261 replace them by two
  random samples. With telescopes 1 and 2 the event is processed without an exception,
  the fitted core is (10, 20), the projection is called once, on (10, 20), and returns
  the ground-frame coordinates (11, 21), and the fit result that is handed on has the
  core (125, 175).
\<close>

theorem core_not_reported_in_ground_frame:
  "fst (reconstruct_event X0 (event0 [1, 2]) tool0) = Inr () \<and>
   drop 13 (calls (snd (reconstruct_event X0 (event0 [1, 2]) tool0))) =
     [Call_predict, Call_project_to_ground 10 20, Call_normal 100 25, Call_normal 150 25,
      Call_set_event_properties,
      Call_energy_predict \<lparr>alt = 1, az = 2, core_x = 125, core_y = 175\<rparr>] \<and>
   project_to_ground X0 (array_pointing_of (event0 [1, 2])) (10, 20) = (11, 21)"
  by (simp add: run_simps)

subsection \<open>The order of cleaning, moments and dilation\<close>

text \<open>
  Claim C3, as amended. For a telescope with a registered camera type, the iteration
  first builds the cleaning mask, then computes the moments over the camera pixel
  positions and, when these did not fail, over the nominal positions, both of the signal
  weighted with the cleaning mask as the cleaning returned it; the mask is dilated, twice,
  only afterwards and only when the telescope passes.
\<close>

theorem moments_before_dilation:
  assumes "registered (cam_id (geometry_of X ev self t))"
  shows "\<exists>boundary picture.
           tail_cut (cam_id (geometry_of X ev self t)) = Some (boundary, picture) \<and>
           calls (snd (tel_body X ev ap t (self, d))) =
             calls (snd (get_geometry X ev t self)) @
             [Call_tailcuts_clean t (geometry_of X ev self t) (image0 (tel ev t)) picture boundary,
              Call_hillas_parameters t (fst (pixel_pos (tel ev t))) (snd (pixel_pos (tel ev t)))
                (masked (image0 (tel ev t))
                   (tailcuts_clean X (geometry_of X ev self t) (image0 (tel ev t)) picture boundary))] @
             (case hillas_parameters X (fst (pixel_pos (tel ev t))) (snd (pixel_pos (tel ev t)))
                     (masked (image0 (tel ev t))
                        (tailcuts_clean X (geometry_of X ev self t) (image0 (tel ev t))
                           picture boundary)) of
                Inl msg \<Rightarrow> []
              | Inr moments_cam \<Rightarrow>
                  [Call_hillas_parameters t
                     (fst (nominal_of X ev ap (geometry_of X ev self t) t))
                     (snd (nominal_of X ev ap (geometry_of X ev self t) t))
                     (masked (image0 (tel ev t))
                        (tailcuts_clean X (geometry_of X ev self t) (image0 (tel ev t))
                           picture boundary))]) @
             (if tel_passes X ev ap (geometry_of X ev self t) t
              then [Call_dilate t (geometry_of X ev self t)
                      (tailcuts_clean X (geometry_of X ev self t) (image0 (tel ev t))
                         picture boundary),
                    Call_dilate t (geometry_of X ev self t)
                      (dilate X (geometry_of X ev self t)
                         (tailcuts_clean X (geometry_of X ev self t) (image0 (tel ev t))
                            picture boundary))]
              else [])"
proof -
  from assms obtain b p where tc: "tail_cut (cam_id (geometry_of X ev self t)) = Some (b, p)"
    by (auto simp: registered_def)
  show ?thesis
    by (rule exI [of _ b], rule exI [of _ p])
      (simp add: tc tel_body_calls [OF assms] iteration_calls_def weighted_image_def
        cleaning_mask_def split: sum.splits)
qed

text \<open>
  For telescope 1 the moments are those of the signal [200, 0, 0]; the dilations follow.
\<close>

theorem moments_before_dilation_witness:
  "registered (cam_id (geometry_of X0 (event0 [1]) tool0 1)) \<and>
   tail_cut (cam_id (geometry_of X0 (event0 [1]) tool0 1)) = Some (8, 16) \<and>
   tel_passes X0 (event0 [1]) (array_pointing_of (event0 [1]))
     (geometry_of X0 (event0 [1]) tool0 1) 1 \<and>
   drop 2 (calls (snd (tel_body X0 (event0 [1]) (array_pointing_of (event0 [1])) 1
                   (tool0, empty_dicts)))) =
     [Call_tailcuts_clean 1 lst_geometry [200, 5, 0] 16 8,
      Call_hillas_parameters 1 [0, 28, 56] [28, 28, 28] [200, 0, 0],
      Call_hillas_parameters 1 [0, 1, 2] [1, 1, 1] [200, 0, 0],
      Call_dilate 1 lst_geometry [True, False, False],
      Call_dilate 1 lst_geometry [True, True, True]]"
proof -
  have r: "registered (cam_id (geometry_of X0 (event0 [1]) tool0 1))"
    by (simp add: run_simps spec_simps)
  have tc: "tail_cut (cam_id (geometry_of X0 (event0 [1]) tool0 1)) = Some (8, 16)"
    by (simp add: run_simps spec_simps)
  have ps: "tel_passes X0 (event0 [1]) (array_pointing_of (event0 [1]))
              (geometry_of X0 (event0 [1]) tool0 1) 1"
    by (simp add: run_simps spec_simps)
  have g: "calls (snd (get_geometry X0 (event0 [1]) 1 tool0)) =
             [Call_hessio_event_source ''gamma.simtel.gz'' None,
              Call_guess 1 [0, 28, 56] [28, 28, 28] 28]"
    by (simp add: run_simps)
  from moments_before_dilation [OF r, of "array_pointing_of (event0 [1])" empty_dicts]
  have "drop 2 (calls (snd (tel_body X0 (event0 [1]) (array_pointing_of (event0 [1])) 1
                   (tool0, empty_dicts)))) =
     [Call_tailcuts_clean 1 lst_geometry [200, 5, 0] 16 8,
      Call_hillas_parameters 1 [0, 28, 56] [28, 28, 28] [200, 0, 0],
      Call_hillas_parameters 1 [0, 1, 2] [1, 1, 1] [200, 0, 0],
      Call_dilate 1 lst_geometry [True, False, False],
      Call_dilate 1 lst_geometry [True, True, True]]"
    using tc ps g
    by (simp add: run_simps spec_simps lst_geometry_def)
  with r tc ps show ?thesis
    by blast
qed

text \<open>
  Claim C3 as stated fails. For telescope 1 both moment computations precede the two
  dilations and take the signal [200, 0, 0] weighted with the undilated mask, whereas the
  twice dilated mask would keep the signal [200, 5, 0]. For telescope 3, whose moments
  fail, the mask is not dilated at all.
\<close>

theorem dilation_before_moments_counterexample:
  "calls (snd (tel_body X0 (event0 [1]) (array_pointing_of (event0 [1])) 1 (tool0, empty_dicts))) =
     [Call_hessio_event_source ''gamma.simtel.gz'' None,
      Call_guess 1 [0, 28, 56] [28, 28, 28] 28,
      Call_tailcuts_clean 1 lst_geometry [200, 5, 0] 16 8,
      Call_hillas_parameters 1 [0, 28, 56] [28, 28, 28] [200, 0, 0],
      Call_hillas_parameters 1 [0, 1, 2] [1, 1, 1] [200, 0, 0],
      Call_dilate 1 lst_geometry [True, False, False],
      Call_dilate 1 lst_geometry [True, True, True]] \<and>
   masked [200, 5, 0] (dilate X0 lst_geometry (dilate X0 lst_geometry [True, False, False])) =
     [200, 5, 0] \<and>
   calls (snd (tel_body X0 (event0 [3]) (array_pointing_of (event0 [3])) 3 (tool0, empty_dicts))) =
     [Call_hessio_event_source ''gamma.simtel.gz'' None,
      Call_guess 3 [0, 28, 56] [28, 28, 28] 28,
      Call_tailcuts_clean 3 lst_geometry [1, 2, 0] 16 8,
      Call_hillas_parameters 3 [0, 28, 56] [28, 28, 28] [0, 0, 0]]"
  by (simp add: run_simps array_pointing_of_def lst_geometry_def)

subsection \<open>A failing moment computation\<close>

text \<open>
  Claim C6. When the moment computation of a telescope with a registered camera type
  raises \<open>HillasParameterizationError\<close>, in its first or in its second call, the
  iteration ends without an exception and leaves every per-event dictionary as it was,
  the message of the error is printed, and the loop goes on with the remaining
  telescopes. No run of the loop ends with a \<open>HillasParameterizationError\<close>.
\<close>

theorem hillas_failure_skips_telescope:
  assumes "registered (cam_id (geometry_of X ev self t))"
    and "reduction X ev ap (geometry_of X ev self t) t = Inl msg"
  shows "fst (tel_body X ev ap t (self, d)) = Inr d \<and>
         stdout (snd (tel_body X ev ap t (self, d))) = stdout self @ [msg] \<and>
         tel_loop X ev ap (t # ts) (self, d) =
           tel_loop X ev ap ts (snd (tel_body X ev ap t (self, d)), d) \<and>
         (\<forall>ts' s' d' m.
            fst (tel_loop X ev ap ts' (s', d')) \<noteq> Inl (HillasParameterizationError m))"
proof -
  have a: "fst (tel_body X ev ap t (self, d)) = Inr d"
    by (simp add: tel_body_result [OF assms(1)] assms(2))
  have b: "stdout (snd (tel_body X ev ap t (self, d))) = stdout self @ [msg]"
    by (simp add: tel_body_stdout [OF assms(1)] assms(2))
  have c: "tel_loop X ev ap (t # ts) (self, d) =
             tel_loop X ev ap ts (snd (tel_body X ev ap t (self, d)), d)"
    by (simp only: tel_loop_Cons a sum.case)
  have e: "\<forall>ts' s' d' m.
            fst (tel_loop X ev ap ts' (s', d')) \<noteq> Inl (HillasParameterizationError m)"
    using tel_loop_error by fastforce
  from a b c e show ?thesis
    by blast
qed

text \<open>
  Telescope 3 has no signal above the threshold: its moments fail, the message is
  printed, no dictionary gets an entry, and telescopes 1 and 2 are still processed and
  give a row.
\<close>

theorem hillas_failure_skips_telescope_witness:
  "registered (cam_id (geometry_of X0 (event0 [3, 1, 2]) tool0 3)) \<and>
   reduction X0 (event0 [3, 1, 2]) (array_pointing_of (event0 [3, 1, 2]))
     (geometry_of X0 (event0 [3, 1, 2]) tool0 3) 3 = Inl ''no signal'' \<and>
   fst (tel_body X0 (event0 [3, 1, 2]) (array_pointing_of (event0 [3, 1, 2])) 3
          (tool0, empty_dicts)) = Inr empty_dicts \<and>
   stdout (snd (tel_body X0 (event0 [3, 1, 2]) (array_pointing_of (event0 [3, 1, 2])) 3
                  (tool0, empty_dicts))) = [''gamma.simtel.gz'', ''no signal''] \<and>
   fst (reconstruct_event X0 (event0 [3, 1, 2]) tool0) = Inr () \<and>
   map ntels (output_t (snd (reconstruct_event X0 (event0 [3, 1, 2]) tool0))) = [2]"
proof -
  let ?ev = "event0 [3, 1, 2]"
  have r: "registered (cam_id (geometry_of X0 ?ev tool0 3))"
    by (simp add: run_simps spec_simps)
  have f: "reduction X0 ?ev (array_pointing_of ?ev) (geometry_of X0 ?ev tool0 3) 3 =
             Inl ''no signal''"
    by (simp add: run_simps spec_simps)
  have st: "stdout tool0 = [''gamma.simtel.gz'']"
    by (simp add: tool0_def)
  have ok: "fst (reconstruct_event X0 ?ev tool0) = Inr ()"
    by (simp add: run_simps)
  have rows: "map ntels (output_t (snd (reconstruct_event X0 ?ev tool0))) = [2]"
    by (simp add: run_simps)
  from hillas_failure_skips_telescope [OF r f, of empty_dicts] st
  have "fst (tel_body X0 ?ev (array_pointing_of ?ev) 3 (tool0, empty_dicts)) = Inr empty_dicts"
    and "stdout (snd (tel_body X0 ?ev (array_pointing_of ?ev) 3 (tool0, empty_dicts))) =
           [''gamma.simtel.gz'', ''no signal'']"
    by simp_all
  with r f ok rows show ?thesis
    by blast
qed

subsection \<open>The geometry cache\<close>

text \<open>
  Claim C7. In the tool state reached by a run from \<open>setup\<close> over any events (whether or
  not the run ended with an exception), \<open>guess\<close> has been called at most once for each
  telescope id, namely once for each cached id. A further encounter of a cached id
  returns the cached geometry and leaves the tool as it is, whatever pixel positions
  and focal length the event holds; a first encounter stores the guessed geometry; and
  every cache entry is still there, unchanged, after any further events.
\<close>

theorem geometry_cached_once:
  assumes "setup_tool cfg = Inr self0"
    and "self1 = snd (start X events self0)"
  shows "distinct (guess_ids (calls self1)) \<and>
         set (guess_ids (calls self1)) = dom (geoms self1) \<and>
         (\<forall>t g event. geoms self1 t = Some g \<longrightarrow> get_geometry X event t self1 = (g, self1)) \<and>
         (\<forall>t event. geoms self1 t = None \<longrightarrow>
            geoms (snd (get_geometry X event t self1)) =
              (geoms self1)(t \<mapsto> guess X (fst (pixel_pos (tel event t)))
                                  (snd (pixel_pos (tel event t))) (optical_foclen (tel event t))) \<and>
            guess_ids (calls (snd (get_geometry X event t self1))) =
              guess_ids (calls self1) @ [t]) \<and>
         (\<forall>t g more. geoms self1 t = Some g \<longrightarrow> geoms (snd (start X more self1)) t = Some g)"
proof -
  have "guessed_once self1"
    unfolding assms(2) using assms(1)
    by (intro start_guessed_once setup_tool_guessed_once)
  then have a: "distinct (guess_ids (calls self1)) \<and>
                set (guess_ids (calls self1)) = dom (geoms self1)"
    by (simp add: guessed_once_def)
  have b: "\<forall>t g event. geoms self1 t = Some g \<longrightarrow> get_geometry X event t self1 = (g, self1)"
    by (simp add: get_geometry_cases)
  have c: "\<forall>t event. geoms self1 t = None \<longrightarrow>
            geoms (snd (get_geometry X event t self1)) =
              (geoms self1)(t \<mapsto> guess X (fst (pixel_pos (tel event t)))
                                  (snd (pixel_pos (tel event t))) (optical_foclen (tel event t))) \<and>
            guess_ids (calls (snd (get_geometry X event t self1))) =
              guess_ids (calls self1) @ [t]"
    by (simp add: get_geometry_cases guess_ids_def)
  have d: "\<forall>t g more. geoms self1 t = Some g \<longrightarrow>
             geoms (snd (start X more self1)) t = Some g"
    by (simp add: start_keeps)
  from a b c d show ?thesis
    by blast
qed

text \<open>
  After two events that both hold telescope 1, the second with other pixel positions and
  a focal length that would be guessed as a NectarCam, the cache still holds the LSTCam
  geometry of the first event and \<open>guess\<close> was called once.
\<close>

theorem geometry_cached_once_witness:
  "setup_tool (config0 (Some [])) = Inr tool0 \<and>
   guess_ids (calls run0) = [1] \<and>
   geoms run0 1 = Some lst_geometry \<and>
   cam_id (guess X0 (fst (pixel_pos (tel (event_moved [1]) 1)))
             (snd (pixel_pos (tel (event_moved [1]) 1)))
             (optical_foclen (tel (event_moved [1]) 1))) = ''NectarCam'' \<and>
   get_geometry X0 (event_moved [1]) 1 run0 = (lst_geometry, run0) \<and>
   geoms (snd (start X0 [event_moved [1, 2]] run0)) 1 = Some lst_geometry \<and>
   distinct (guess_ids (calls run0))"
proof -
  have h: "setup_tool (config0 (Some [])) = Inr tool0"
    by (simp add: setup_tool_def config0_def tool0_def)
  have g: "geoms run0 1 = Some lst_geometry"
    by (simp add: run0_def run_simps event_moved_def lst_geometry_def)
  have i: "guess_ids (calls run0) = [1]"
    by (simp add: run0_def run_simps event_moved_def guess_ids_def)
  have n: "cam_id (guess X0 (fst (pixel_pos (tel (event_moved [1]) 1)))
             (snd (pixel_pos (tel (event_moved [1]) 1)))
             (optical_foclen (tel (event_moved [1]) 1))) = ''NectarCam''"
    by (simp add: run_simps event_moved_def)
  from geometry_cached_once [OF h run0_def] g
  have "distinct (guess_ids (calls run0))"
    and "get_geometry X0 (event_moved [1]) 1 run0 = (lst_geometry, run0)"
    and "geoms (snd (start X0 [event_moved [1, 2]] run0)) 1 = Some lst_geometry"
    by blast+
  with h g i n show ?thesis
    by blast
qed

subsection \<open>An unregistered camera type\<close>

text \<open>
  Claim C8. Let a run have processed some events without an exception, and let the next
  event hold a telescope whose camera type has no entry in the amplitude-cut, the
  distance-cut or the tail-cut table. Then the iteration of that telescope raises
  \<open>KeyError\<close>, and the run ends with the \<open>KeyError\<close> of an unregistered camera type of
  that event: the exception leaves the telescope loop, the event and the run, the later
  events are not processed, and the event adds no row.
\<close>

theorem unregistered_camera_aborts_run:
  assumes "fst (start X evs1 self) = Inr ()"
    and "t \<in> set (tels_with_data (calibrate_event X ev))"
    and "cam = cam_id (geometry_of X (calibrate_event X ev) (snd (start X evs1 self)) t)"
    and "cam \<notin> dom amp_cut \<or> cam \<notin> dom dist_cut \<or> cam \<notin> dom tail_cut"
  shows "fst (tel_body X (calibrate_event X ev) ap t (snd (start X evs1 self), d)) =
           Inl (KeyError (CamKey cam)) \<and>
         (\<exists>u\<in>set (tels_with_data (calibrate_event X ev)).
            \<not> registered (cam_id (geometry_of X (calibrate_event X ev) (snd (start X evs1 self)) u)) \<and>
            start X (evs1 @ ev # evs2) self =
              (Inl (KeyError (CamKey
                 (cam_id (geometry_of X (calibrate_event X ev) (snd (start X evs1 self)) u)))),
               snd (reconstruct_event X (calibrate_event X ev) (snd (start X evs1 self))))) \<and>
         output_t (snd (start X (evs1 @ ev # evs2) self)) = output_t (snd (start X evs1 self))"
proof -
  let ?s1 = "snd (start X evs1 self)"
  let ?ev = "calibrate_event X ev"
  have nr: "\<not> registered (cam_id (geometry_of X ?ev ?s1 t))"
    using assms(3,4) by (simp add: registered_iff)
  then have a: "fst (tel_body X ?ev ap t (?s1, d)) = Inl (KeyError (CamKey cam))"
    by (simp add: tel_body_unregistered assms(3))
  from nr assms(2)
  have "\<exists>t\<in>set (tels_with_data ?ev). \<not> registered (cam_id (geometry_of X ?ev ?s1 t))"
    by blast
  from reconstruct_event_unregistered [OF this] obtain u where
    u: "u \<in> set (tels_with_data ?ev)" "\<not> registered (cam_id (geometry_of X ?ev ?s1 u))"
    and e: "fst (reconstruct_event X ?ev ?s1) =
              Inl (KeyError (CamKey (cam_id (geometry_of X ?ev ?s1 u))))"
    by blast
  have st: "start X (evs1 @ ev # evs2) self =
              (Inl (KeyError (CamKey (cam_id (geometry_of X ?ev ?s1 u)))),
               snd (reconstruct_event X ?ev ?s1))"
    by (simp only: start_append [OF assms(1)] start_Cons e sum.case)
  have out: "output_t (snd (start X (evs1 @ ev # evs2) self)) = output_t ?s1"
    by (simp add: st reconstruct_event_frame_error [OF e])
  from a u st out show ?thesis
    by blast
qed

text \<open>
  The second of three events holds telescope 4 with an ASTRICam, which has no thresholds:
  the run ends there with the \<open>KeyError\<close>, and the table holds the row of the first
  event only.
\<close>

theorem unregistered_camera_aborts_run_witness:
  "fst (start X0 [event0 [1, 2]] tool0) = Inr () \<and>
   cam_id (geometry_of X0 (calibrate_event X0 (event0 [1, 4, 2]))
             (snd (start X0 [event0 [1, 2]] tool0)) 4) = ''ASTRICam'' \<and>
   ''ASTRICam'' \<notin> dom tail_cut \<and>
   fst (tel_body X0 (calibrate_event X0 (event0 [1, 4, 2])) (array_pointing_of (event0 [1, 4, 2])) 4
          (snd (start X0 [event0 [1, 2]] tool0), empty_dicts)) =
     Inl (KeyError (CamKey ''ASTRICam'')) \<and>
   fst (start X0 ([event0 [1, 2]] @ event0 [1, 4, 2] # [event0 [1, 2]]) tool0) =
     Inl (KeyError (CamKey ''ASTRICam'')) \<and>
   length (output_t (snd (start X0 ([event0 [1, 2]] @ event0 [1, 4, 2] # [event0 [1, 2]]) tool0))) =
     length (output_t (snd (start X0 [event0 [1, 2]] tool0))) \<and>
   length (output_t (snd (start X0 [event0 [1, 2]] tool0))) = 1"
proof -
  have h1: "fst (start X0 [event0 [1, 2]] tool0) = Inr ()"
    by (simp add: run_simps)
  have h2: "4 \<in> set (tels_with_data (calibrate_event X0 (event0 [1, 4, 2])))"
    by (simp add: run_simps)
  have h3: "''ASTRICam'' = cam_id (geometry_of X0 (calibrate_event X0 (event0 [1, 4, 2]))
             (snd (start X0 [event0 [1, 2]] tool0)) 4)"
    by (simp add: run_simps spec_simps)
  have h4: "''ASTRICam'' \<notin> dom tail_cut"
    by (simp add: tail_cut_def)
  then have h4': "''ASTRICam'' \<notin> dom amp_cut \<or> ''ASTRICam'' \<notin> dom dist_cut \<or>
                  ''ASTRICam'' \<notin> dom tail_cut"
    by simp
  have e: "fst (start X0 ([event0 [1, 2]] @ event0 [1, 4, 2] # [event0 [1, 2]]) tool0) =
             Inl (KeyError (CamKey ''ASTRICam''))"
    by (simp add: run_simps)
  have n: "length (output_t (snd (start X0 [event0 [1, 2]] tool0))) = 1"
    by (simp add: run_simps)
  from unregistered_camera_aborts_run [OF h1 h2 h3 h4',
      of "array_pointing_of (event0 [1, 4, 2])" empty_dicts "[event0 [1, 2]]"]
  have "fst (tel_body X0 (calibrate_event X0 (event0 [1, 4, 2]))
               (array_pointing_of (event0 [1, 4, 2])) 4
               (snd (start X0 [event0 [1, 2]] tool0), empty_dicts)) =
          Inl (KeyError (CamKey ''ASTRICam''))"
    and "length (output_t (snd (start X0 ([event0 [1, 2]] @ event0 [1, 4, 2] # [event0 [1, 2]])
                                  tool0))) =
         length (output_t (snd (start X0 [event0 [1, 2]] tool0)))"
    by simp_all
  with h1 h3 h4 e n show ?thesis
    by simp
qed

subsection \<open>The telescope filter of \<open>setup\<close>\<close>

text \<open>
  Claim C10, as amended. If the configured telescope list has fewer than two entries
  (none or one), \<open>setup\<close> replaces it with \<open>None\<close> and opens the event source without a
  telescope restriction, so that the source yields the events of the file as they are; a
  list of two or more entries is kept and handed to the event source as it is. So no
  list with fewer than two entries reaches the event source.
\<close>

theorem short_telescope_list_dropped:
  assumes "cfg_telescopes cfg = Some ts"
  shows "\<exists>self. setup_tool cfg = Inr self \<and>
           telescopes self = (if length ts < 2 then None else Some ts) \<and>
           calls self = [Call_hessio_event_source (infile cfg) (telescopes self)] \<and>
           (length ts < 2 \<longrightarrow> hessio_event_source (telescopes self) file_events = file_events) \<and>
           (\<forall>ts'. telescopes self = Some ts' \<longrightarrow> 2 \<le> length ts')"
  using assms by (auto simp add: setup_tool_def Let_def hessio_event_source_def)

text \<open>A list with the single telescope 5 is dropped: the source is opened with \<open>None\<close>.\<close>

theorem short_telescope_list_dropped_witness:
  "cfg_telescopes (config0 (Some [5])) = Some [5] \<and>
   setup_tool (config0 (Some [5])) = Inr tool0 \<and>
   telescopes tool0 = None \<and>
   calls tool0 = [Call_hessio_event_source ''gamma.simtel.gz'' None]"
proof -
  have h: "cfg_telescopes (config0 (Some [5])) = Some [5]"
    by (simp add: config0_def)
  have e: "setup_tool (config0 (Some [5])) = Inr tool0"
    by (simp add: setup_tool_def config0_def tool0_def Let_def)
  from short_telescope_list_dropped [OF h] e
  have "telescopes tool0 = None"
    and "calls tool0 = [Call_hessio_event_source (infile (config0 (Some [5]))) (telescopes tool0)]"
    by auto
  with h e show ?thesis
    by (simp add: config0_def)
qed

text \<open>
  Claim C10 as stated fails in its last part: the list [3, 3] has two entries, is kept,
  and restricts the events to the single telescope 3.
\<close>

theorem single_telescope_filter_counterexample:
  "setup_tool (config0 (Some [3, 3])) =
     Inr (tool0\<lparr>telescopes := Some [3, 3],
                calls := [Call_hessio_event_source ''gamma.simtel.gz'' (Some [3, 3])]\<rparr>) \<and>
   map tels_with_data (hessio_event_source (Some [3, 3]) [event0 [1, 2, 3]]) = [[3]]"
  by (simp add: setup_tool_def config0_def tool0_def Let_def hessio_event_source_def event0_def)

end
